theory Spec2Isabelle
  imports Main
begin

section \<open>JavaScript values\<close>

text \<open>
  The library passes plain JavaScript data around: snapshots of the page's models arrive as
  objects whose fields may be absent, \<open>null\<close>, primitives, arrays or nested objects, and the
  code decides by truthiness, \<open>typeof\<close> and strict equality. The values are modelled as they
  are. Numbers are the integers and \<open>NaN\<close> (the code does arithmetic on a counter only);
  an object is the list of its own properties in insertion order.
\<close>

datatype jsnum = NaN | Fin int

datatype jsval =
    JUndefined
  | JNull
  | JBool bool
  | JNum jsnum
  | JStr string
  | JArr "jsval list"
  | JObj "(string \<times> jsval) list"

type_synonym obj = "(string \<times> jsval) list"

datatype error = TypeError | Error string | Rejected string

text \<open>Truthiness (\<open>ToBoolean\<close>), \<open>a && b\<close>, \<open>a || b\<close> and \<open>Boolean(a)\<close>.\<close>

fun truthy :: "jsval \<Rightarrow> bool" where
  "truthy JUndefined = False"
| "truthy JNull = False"
| "truthy (JBool b) = b"
| "truthy (JNum NaN) = False"
| "truthy (JNum (Fin n)) = (n \<noteq> 0)"
| "truthy (JStr s) = (s \<noteq> [])"
| "truthy (JArr xs) = True"
| "truthy (JObj ps) = True"

definition js_and :: "jsval \<Rightarrow> jsval \<Rightarrow> jsval" where
  "js_and a b = (if truthy a then b else a)"

definition js_or :: "jsval \<Rightarrow> jsval \<Rightarrow> jsval" where
  "js_or a b = (if truthy a then a else b)"

definition Boolean :: "jsval \<Rightarrow> jsval" where
  "Boolean a = JBool (truthy a)"

text \<open>
  Strict equality \<open>a === b\<close>. Two objects or arrays are equal only when they are the same
  reference; every value modelled here was deserialised on its own, so two of them never are.
\<close>

fun strict_eq :: "jsval \<Rightarrow> jsval \<Rightarrow> bool" where
  "strict_eq JUndefined JUndefined = True"
| "strict_eq JNull JNull = True"
| "strict_eq (JBool a) (JBool b) = (a = b)"
| "strict_eq (JNum (Fin a)) (JNum (Fin b)) = (a = b)"
| "strict_eq (JStr a) (JStr b) = (a = b)"
| "strict_eq _ _ = False"

text \<open>\<open>typeof v === 'object'\<close> and \<open>typeof v === 'string'\<close>.\<close>

fun typeof_object :: "jsval \<Rightarrow> bool" where
  "typeof_object JNull = True"
| "typeof_object (JArr xs) = True"
| "typeof_object (JObj ps) = True"
| "typeof_object _ = False"

fun typeof_string :: "jsval \<Rightarrow> bool" where
  "typeof_string (JStr s) = True"
| "typeof_string _ = False"

text \<open>
  Reading a property. \<open>oget\<close> reads an own property of an object (\<open>undefined\<close> when it is
  absent); \<open>member\<close> is \<open>v.k\<close> on any value and raises on \<open>undefined\<close> and \<open>null\<close>;
  \<open>delete_prop\<close> is \<open>delete o.k\<close>; \<open>has_in\<close> is \<open>k in v\<close>, which raises on a primitive.
\<close>

definition oget :: "obj \<Rightarrow> string \<Rightarrow> jsval" where
  "oget ps k = (case map_of ps k of None \<Rightarrow> JUndefined | Some v \<Rightarrow> v)"

fun member :: "jsval \<Rightarrow> string \<Rightarrow> error + jsval" where
  "member JUndefined k = Inl TypeError"
| "member JNull k = Inl TypeError"
| "member (JObj ps) k = Inr (oget ps k)"
| "member (JStr s) k = Inr (if k = ''length'' then JNum (Fin (int (length s))) else JUndefined)"
| "member (JArr xs) k = Inr (if k = ''length'' then JNum (Fin (int (length xs))) else JUndefined)"
| "member _ k = Inr JUndefined"

definition delete_prop :: "obj \<Rightarrow> string \<Rightarrow> obj" where
  "delete_prop ps k = filter (\<lambda>p. fst p \<noteq> k) ps"

fun has_in :: "string \<Rightarrow> jsval \<Rightarrow> error + bool" where
  "has_in k (JObj ps) = Inr (map_of ps k \<noteq> None)"
| "has_in k (JArr xs) = Inr (k = ''length'')"
| "has_in k _ = Inl TypeError"

text \<open>\<open>s.includes(pat)\<close> on strings, and \<open>s.split('\n')\<close>.\<close>

fun starts_with :: "string \<Rightarrow> string \<Rightarrow> bool" where
  "starts_with [] s = True"
| "starts_with (p # ps) [] = False"
| "starts_with (p # ps) (c # cs) = (p = c \<and> starts_with ps cs)"

fun includes_str :: "string \<Rightarrow> string \<Rightarrow> bool" where
  "includes_str pat [] = (pat = [])"
| "includes_str pat (c # cs) = (starts_with pat (c # cs) \<or> includes_str pat cs)"

fun split_on :: "char \<Rightarrow> string \<Rightarrow> string list" where
  "split_on sep [] = [[]]"
| "split_on sep (c # cs) =
     (case split_on sep cs of
        [] \<Rightarrow> (if c = sep then [[], []] else [[c]])
      | w # ws \<Rightarrow> (if c = sep then [] # w # ws else (c # w) # ws))"

definition nth_or_undefined :: "'a list \<Rightarrow> nat \<Rightarrow> ('a \<Rightarrow> jsval) \<Rightarrow> jsval" where
  "nth_or_undefined xs i f = (if i < length xs then f (xs ! i) else JUndefined)"

definition bind_err :: "error + 'a \<Rightarrow> ('a \<Rightarrow> error + 'b) \<Rightarrow> error + 'b" where
  "bind_err r f = (case r of Inl e \<Rightarrow> Inl e | Inr v \<Rightarrow> f v)"

section \<open>Constants of \<open>Util/Constant\<close>\<close>

text \<open>
  Modelled from the spec: \<open>Util/Constant.js\<close> (\<open>MessageTypes\<close>, \<open>WAState\<close>, \<open>Events\<close>) is
  not among the sources. The message types and connection states are the string literals the
  spec's enumerations name; the events are an enumeration with one constructor for each
  \<open>Events\<close> constant the code uses.
\<close>

definition LOCATION :: string where "LOCATION = ''location''"
definition CONTACT_CARD :: string where "CONTACT_CARD = ''vcard''"
definition CONTACT_CARD_MULTI :: string where "CONTACT_CARD_MULTI = ''multi_vcard''"
definition GROUP_INVITE :: string where "GROUP_INVITE = ''groups_v4_invite''"
definition POLL_CREATION :: string where "POLL_CREATION = ''poll_creation''"

definition CONFLICT :: string where "CONFLICT = ''CONFLICT''"
definition CONNECTED :: string where "CONNECTED = ''CONNECTED''"
definition OPENING :: string where "OPENING = ''OPENING''"
definition PAIRING :: string where "PAIRING = ''PAIRING''"
definition TIMEOUT :: string where "TIMEOUT = ''TIMEOUT''"

datatype event =
    QR_RECEIVED
  | DISCONNECTED
  | STATE_CHANGED
  | GROUP_JOIN
  | GROUP_LEAVE
  | GROUP_ADMIN_CHANGED
  | GROUP_MEMBERSHIP_REQUEST
  | GROUP_UPDATE
  | MESSAGE_CREATE
  | MESSAGE_RECEIVED
  | MESSAGE_REVOKED_EVERYONE
  | CONTACT_CHANGED

section \<open>\<open>Structures/Message.js\<close>\<close>

text \<open>
  A \<open>Message\<close> is built from a snapshot by \<open>_patch\<close>. Each property the constructor assigns
  is a field of the record; a property that \<open>_patch\<close> assigns only under a condition is
  \<open>undefined\<close> when the condition fails. \<open>priv_data\<close> is the non-enumerable \<open>_data\<close>
  property: the snapshot object itself, as \<open>_patch\<close> leaves it. The reference to the
  client that \<open>Base\<close> stores is not a property of the data and is left out.
\<close>

record message =
  priv_data :: obj
  mediaKey :: jsval
  msg_id :: jsval
  ack :: jsval
  hasMedia :: jsval
  body :: jsval
  msg_type :: jsval
  timestamp :: jsval
  msg_from :: jsval
  msg_to :: jsval
  author :: jsval
  deviceType :: jsval
  isForwarded :: jsval
  forwardingScore :: jsval
  isStatus :: jsval
  isStarred :: jsval
  broadcast :: jsval
  fromMe :: jsval
  hasQuotedMsg :: jsval
  hasReaction :: jsval
  duration :: jsval
  location :: jsval
  vCards :: jsval
  inviteV4 :: jsval
  mentionedIds :: jsval
  orderId :: jsval
  token :: jsval
  isGif :: jsval
  isEphemeral :: jsval
  title :: jsval
  description :: jsval
  businessOwnerJid :: jsval
  productId :: jsval
  latestEditSenderTimestampMs :: jsval
  latestEditMsgKey :: jsval
  links :: jsval
  dynamicReplyButtons :: jsval
  selectedButtonId :: jsval
  selectedRowId :: jsval
  pollName :: jsval
  pollOptions :: jsval
  allowMultipleAnswers :: jsval
  pollInvalidated :: jsval
  isSentCagPollCreation :: jsval

text \<open>
  Modelled from the spec: \<open>Structures/Location.js\<close> is not among the sources; the spec gives
  a location as coordinates and a description, and the constructor is called with the three.
\<close>

definition Location :: "jsval \<Rightarrow> jsval \<Rightarrow> jsval \<Rightarrow> jsval" where
  "Location latitude longitude desc =
     JObj [(''latitude'', latitude), (''longitude'', longitude), (''description'', desc)]"

text \<open>
  The pieces of \<open>_patch\<close> that are more than a copy.
  \<open>serialized_or_self\<close> is \<open>(typeof x === 'object' && x !== null) ? x._serialized : x\<close>,
  used for \<open>from\<close>, \<open>to\<close> and \<open>author\<close>. In \<open>deviceType_of\<close> the length of the id is
  counted in characters, which for the ASCII ids of messages is JavaScript's \<open>length\<close>.
\<close>

definition serialized_or_self :: "jsval \<Rightarrow> jsval" where
  "serialized_or_self x =
     (if typeof_object x \<and> x \<noteq> JNull
      then (case member x ''_serialized'' of Inr v \<Rightarrow> v | Inl e \<Rightarrow> JUndefined)
      else x)"

definition deviceType_of :: "jsval \<Rightarrow> jsval" where
  "deviceType_of id_id =
     (case id_id of
        JStr s \<Rightarrow>
          (if length s > 21 then JStr ''android''
           else if take 2 s = ''3A'' then JStr ''ios'' else JStr ''web'')
      | _ \<Rightarrow> JStr ''web'')"

definition location_of :: "obj \<Rightarrow> jsval" where
  "location_of data =
     (if \<not> strict_eq (oget data ''type'') (JStr LOCATION) then JUndefined
      else
        (let desc =
           (case oget data ''loc'' of
              JStr s \<Rightarrow>
                (if s \<noteq> [] then
                   (let splitted = split_on (CHR 0x0A) s
                    in JObj [(''name'', nth_or_undefined splitted 0 JStr),
                             (''address'', nth_or_undefined splitted 1 JStr),
                             (''url'', oget data ''clientUrl'')])
                 else JUndefined)
            | _ \<Rightarrow> JUndefined)
         in Location (oget data ''lat'') (oget data ''lng'') desc))"

text \<open>\<open>data.vcardList.map((c) => c.vcard)\<close>: raises unless \<open>vcardList\<close> is an array.\<close>

fun map_vcard :: "jsval list \<Rightarrow> error + jsval list" where
  "map_vcard [] = Inr []"
| "map_vcard (c # cs) =
     bind_err (member c ''vcard'') (\<lambda>v. bind_err (map_vcard cs) (\<lambda>vs. Inr (v # vs)))"

definition vCards_of :: "obj \<Rightarrow> error + jsval" where
  "vCards_of data =
     (if strict_eq (oget data ''type'') (JStr CONTACT_CARD_MULTI) then
        (case oget data ''vcardList'' of
           JArr cs \<Rightarrow> bind_err (map_vcard cs) (\<lambda>vs. Inr (JArr vs))
         | _ \<Rightarrow> Inl TypeError)
      else if strict_eq (oget data ''type'') (JStr CONTACT_CARD) then Inr (JArr [oget data ''body''])
      else Inr (JArr []))"

text \<open>\<open>'_serialized' in x ? x._serialized : x\<close>: raises unless \<open>x\<close> is an object.\<close>

definition in_serialized_or_self :: "jsval \<Rightarrow> error + jsval" where
  "in_serialized_or_self x =
     bind_err (has_in ''_serialized'' x) (\<lambda>b. if b then member x ''_serialized'' else Inr x)"

definition inviteV4_of :: "obj \<Rightarrow> error + jsval" where
  "inviteV4_of data =
     (if strict_eq (oget data ''type'') (JStr GROUP_INVITE) then
        bind_err (in_serialized_or_self (oget data ''from'')) (\<lambda>fromId.
        bind_err (in_serialized_or_self (oget data ''to'')) (\<lambda>toId.
          Inr (JObj [(''inviteCode'', oget data ''inviteCode''),
                     (''inviteCodeExp'', oget data ''inviteCodeExp''),
                     (''groupId'', oget data ''inviteGrp''),
                     (''groupName'', oget data ''inviteGrpName''),
                     (''fromId'', fromId),
                     (''toId'', toId)])))
      else Inr JUndefined)"

text \<open>
  \<open>if (data.listResponse && data.listResponse.singleSelectReply.selectedRowId)
  this.selectedRowId = ...\<close>
\<close>

definition selectedRowId_of :: "obj \<Rightarrow> error + jsval" where
  "selectedRowId_of data =
     (if truthy (oget data ''listResponse'') then
        bind_err (member (oget data ''listResponse'') ''singleSelectReply'') (\<lambda>reply.
        bind_err (member reply ''selectedRowId'') (\<lambda>rowId.
          Inr (if truthy rowId then rowId else JUndefined)))
      else Inr JUndefined)"

definition when_truthy :: "jsval \<Rightarrow> jsval" where
  "when_truthy v = (if truthy v then v else JUndefined)"

definition poll_keys :: "string list" where
  "poll_keys = [''pollName'', ''pollOptions'', ''pollSelectableOptionsCount'',
                ''pollInvalidated'', ''isSentCagPollCreation'']"

text \<open>
  \<open>Message._patch(data)\<close>. The result is the message and the snapshot object as the call
  leaves it: for a poll creation the five poll fields are deleted from \<open>this._data\<close>, which
  is the caller's object. Every failure is a \<open>TypeError\<close> raised before any deletion.
\<close>

definition Message_patch :: "obj \<Rightarrow> error + (message \<times> obj)" where
  "Message_patch data =
     bind_err (member (oget data ''id'') ''id'') (\<lambda>id_id.
     bind_err (member (oget data ''id'') ''remote'') (\<lambda>id_remote.
     bind_err (member (oget data ''id'') ''fromMe'') (\<lambda>id_fromMe.
     bind_err (vCards_of data) (\<lambda>vcards.
     bind_err (inviteV4_of data) (\<lambda>invite.
     bind_err (selectedRowId_of data) (\<lambda>rowId.
       (let has_media = Boolean (js_and (oget data ''mediaKey'') (oget data ''directPath''));
            is_poll = strict_eq (oget data ''type'') (JStr POLL_CREATION);
            data' = (if is_poll then fold (\<lambda>k d. delete_prop d k) poll_keys data else data)
        in Inr (\<lparr> priv_data = data',
                  mediaKey = oget data ''mediaKey'',
                  msg_id = oget data ''id'',
                  ack = oget data ''ack'',
                  hasMedia = has_media,
                  body = (if truthy has_media then js_or (oget data ''caption'') (JStr [])
                          else js_or (js_or (oget data ''body'') (oget data ''pollName''))
                                 (JStr [])),
                  msg_type = oget data ''type'',
                  timestamp = oget data ''t'',
                  msg_from = serialized_or_self (oget data ''from''),
                  msg_to = serialized_or_self (oget data ''to''),
                  author = serialized_or_self (oget data ''author''),
                  deviceType = deviceType_of id_id,
                  isForwarded = oget data ''isForwarded'',
                  forwardingScore = js_or (oget data ''forwardingScore'') (JNum (Fin 0)),
                  isStatus = js_or (oget data ''isStatusV3'')
                               (JBool (strict_eq id_remote (JStr ''status@broadcast''))),
                  isStarred = oget data ''star'',
                  broadcast = oget data ''broadcast'',
                  fromMe = id_fromMe,
                  hasQuotedMsg = JBool (truthy (oget data ''quotedMsg'')),
                  hasReaction = JBool (truthy (oget data ''hasReaction'')),
                  duration = when_truthy (oget data ''duration''),
                  location = location_of data,
                  vCards = vcards,
                  inviteV4 = invite,
                  mentionedIds = (if truthy (oget data ''mentionedJidList'')
                                  then oget data ''mentionedJidList'' else JArr []),
                  orderId = when_truthy (oget data ''orderId''),
                  token = when_truthy (oget data ''token''),
                  isGif = Boolean (oget data ''isGif''),
                  isEphemeral = oget data ''isEphemeral'',
                  title = when_truthy (oget data ''title''),
                  description = when_truthy (oget data ''description''),
                  businessOwnerJid = when_truthy (oget data ''businessOwnerJid''),
                  productId = when_truthy (oget data ''productId''),
                  latestEditSenderTimestampMs =
                    when_truthy (oget data ''latestEditSenderTimestampMs''),
                  latestEditMsgKey = when_truthy (oget data ''latestEditMsgKey''),
                  links = oget data ''links'',
                  dynamicReplyButtons = when_truthy (oget data ''dynamicReplyButtons''),
                  selectedButtonId = when_truthy (oget data ''selectedButtonId''),
                  selectedRowId = rowId,
                  pollName = (if is_poll then oget data ''pollName'' else JUndefined),
                  pollOptions = (if is_poll then oget data ''pollOptions'' else JUndefined),
                  allowMultipleAnswers =
                    (if is_poll
                     then Boolean (JBool (\<not> truthy (oget data ''pollSelectableOptionsCount'')))
                     else JUndefined),
                  pollInvalidated = (if is_poll then oget data ''pollInvalidated'' else JUndefined),
                  isSentCagPollCreation =
                    (if is_poll then oget data ''isSentCagPollCreation'' else JUndefined) \<rparr>,
                data'))))))))"

text \<open>The getter \<open>rawData\<close> returns \<open>this._data\<close>.\<close>

definition rawData :: "message \<Rightarrow> obj" where
  "rawData m = priv_data m"

text \<open>\<open>new Message(client, data).rawData\<close>: construction followed by the getter.\<close>

definition Message_rawData :: "obj \<Rightarrow> error + obj" where
  "Message_rawData data = bind_err (Message_patch data) (\<lambda>(m, data'). Inr (rawData m))"

section \<open>\<open>Structures/GroupNotification.js\<close>\<close>

record group_notification =
  gn_id :: jsval
  gn_body :: jsval
  gn_type :: jsval
  gn_timestamp :: jsval
  chatId :: jsval
  gn_author :: jsval
  recipientIds :: jsval

text \<open>\<open>typeof x === 'object' ? x._serialized : x\<close>, without the \<open>null\<close> check of \<open>Message\<close>.\<close>

definition object_serialized_or_self :: "jsval \<Rightarrow> error + jsval" where
  "object_serialized_or_self x = (if typeof_object x then member x ''_serialized'' else Inr x)"

definition GroupNotification_patch :: "obj \<Rightarrow> error + group_notification" where
  "GroupNotification_patch data =
     bind_err (member (oget data ''id'') ''remote'') (\<lambda>id_remote.
     bind_err (object_serialized_or_self id_remote) (\<lambda>chat.
     bind_err (object_serialized_or_self (oget data ''author'')) (\<lambda>auth.
       Inr \<lparr> gn_id = oget data ''id'',
             gn_body = js_or (oget data ''body'') (JStr []),
             gn_type = oget data ''subtype'',
             gn_timestamp = oget data ''t'',
             chatId = chat,
             gn_author = auth,
             recipientIds = (if truthy (oget data ''recipients'')
                             then oget data ''recipients'' else JArr []) \<rparr>)))"

section \<open>The event handlers of \<open>Client.initialize\<close>\<close>

text \<open>
  A handler's visible effects are the events it emits, in order, the teardown
  (\<open>this.destroy()\<close>) and the takeover it schedules with \<open>setTimeout\<close>. A handler that
  raises emits nothing: in each of them every expression that can raise is evaluated before
  the first \<open>emit\<close>.
\<close>

datatype arg = AMessage message | ANotification group_notification | AValue jsval

datatype action =
    Emit event "arg list"
  | Destroy
  | SetTimeout_takeover jsval

record options =
  qrMaxRetries :: jsnum
  takeoverOnConflict :: jsval
  takeoverTimeoutMs :: jsval

subsection \<open>\<open>qrChanged\<close>\<close>

text \<open>
  \<open>let qrRetries;\<close> declares the counter without a value: it is \<open>undefined\<close> (\<open>None\<close>) until
  the first \<open>qrRetries++\<close>, which stores \<open>ToNumber(undefined) + 1\<close>. Arithmetic and
  comparison follow IEEE: anything with \<open>NaN\<close> is \<open>NaN\<close>, and every comparison with
  \<open>NaN\<close> is false.
\<close>

fun num_add :: "jsnum \<Rightarrow> jsnum \<Rightarrow> jsnum" where
  "num_add (Fin a) (Fin b) = Fin (a + b)"
| "num_add _ _ = NaN"

fun num_gt :: "jsnum \<Rightarrow> jsnum \<Rightarrow> bool" where
  "num_gt (Fin a) (Fin b) = (a > b)"
| "num_gt _ _ = False"

fun ToNumber :: "jsnum option \<Rightarrow> jsnum" where
  "ToNumber None = NaN"
| "ToNumber (Some n) = n"

definition qrChanged :: "options \<Rightarrow> jsnum option \<Rightarrow> jsval \<Rightarrow> jsnum option \<times> action list" where
  "qrChanged opts qrRetries qr =
     (if num_gt (qrMaxRetries opts) (Fin 0) then
        (let qrRetries' = num_add (ToNumber qrRetries) (Fin 1)
         in if num_gt qrRetries' (qrMaxRetries opts)
            then (Some qrRetries',
                  [Emit QR_RECEIVED [AValue qr],
                   Emit DISCONNECTED [AValue (JStr ''Max qrcode retries reached'')],
                   Destroy])
            else (Some qrRetries', [Emit QR_RECEIVED [AValue qr]]))
      else (qrRetries, [Emit QR_RECEIVED [AValue qr]]))"

text \<open>A sequence of invocations of the callback, threading the counter.\<close>

fun qrChanged_run :: "options \<Rightarrow> jsnum option \<Rightarrow> jsval list \<Rightarrow> jsnum option \<times> action list" where
  "qrChanged_run opts qrRetries [] = (qrRetries, [])"
| "qrChanged_run opts qrRetries (qr # qrs) =
     (case qrChanged opts qrRetries qr of
        (qrRetries', acts) \<Rightarrow>
          (case qrChanged_run opts qrRetries' qrs of
             (qrRetries'', acts') \<Rightarrow> (qrRetries'', acts @ acts')))"

subsection \<open>\<open>onAddMessageEvent\<close>\<close>

definition includes_val :: "jsval list \<Rightarrow> jsval \<Rightarrow> bool" where
  "includes_val xs v = list_ex (\<lambda>x. strict_eq x v) xs"

definition onAddMessageEvent :: "obj \<Rightarrow> error + action list" where
  "onAddMessageEvent msg =
     (if strict_eq (oget msg ''type'') (JStr ''gp2'') then
        bind_err (GroupNotification_patch msg) (\<lambda>notification.
          (let subtype = oget msg ''subtype''
           in if includes_val [JStr ''add'', JStr ''invite'', JStr ''linked_group_join''] subtype
              then Inr [Emit GROUP_JOIN [ANotification notification]]
              else if strict_eq subtype (JStr ''remove'') \<or> strict_eq subtype (JStr ''leave'')
              then Inr [Emit GROUP_LEAVE [ANotification notification]]
              else if strict_eq subtype (JStr ''promote'') \<or> strict_eq subtype (JStr ''demote'')
              then Inr [Emit GROUP_ADMIN_CHANGED [ANotification notification]]
              else if strict_eq subtype (JStr ''created_membership_requests'')
              then Inr [Emit GROUP_MEMBERSHIP_REQUEST [ANotification notification]]
              else Inr [Emit GROUP_UPDATE [ANotification notification]]))
      else
        bind_err (Message_patch msg) (\<lambda>(message, msg').
        bind_err (member (oget msg' ''id'') ''fromMe'') (\<lambda>from_me.
          if truthy from_me then Inr [Emit MESSAGE_CREATE [AMessage message]]
          else Inr [Emit MESSAGE_CREATE [AMessage message],
                    Emit MESSAGE_RECEIVED [AMessage message]])))"

subsection \<open>\<open>onChangeMessageTypeEvent\<close> and \<open>onChangeMessageEvent\<close>\<close>


text \<open>\<open>msg.recipients[0]\<close> and \<open>msg.templateParams.find(id => id !== newId)\<close>.\<close>

fun index0 :: "jsval \<Rightarrow> error + jsval" where
  "index0 JUndefined = Inl TypeError"
| "index0 JNull = Inl TypeError"
| "index0 (JArr xs) = Inr (case xs of [] \<Rightarrow> JUndefined | x # _ \<Rightarrow> x)"
| "index0 (JStr s) = Inr (case s of [] \<Rightarrow> JUndefined | c # _ \<Rightarrow> JStr [c])"
| "index0 (JObj ps) = Inr (oget ps ''0'')"
| "index0 _ = Inr JUndefined"

fun find_not_equal :: "jsval \<Rightarrow> jsval \<Rightarrow> error + jsval" where
  "find_not_equal (JArr xs) newId =
     Inr (case find (\<lambda>x. \<not> strict_eq x newId) xs of None \<Rightarrow> JUndefined | Some x \<Rightarrow> x)"
| "find_not_equal _ newId = Inl TypeError"

definition onChangeMessageEvent :: "obj option \<Rightarrow> obj \<Rightarrow> obj option \<times> (error + action list)" where
  "onChangeMessageEvent last_message msg =
     (let last_message' =
            (if \<not> strict_eq (oget msg ''type'') (JStr ''revoked'') then Some msg else last_message);
          isParticipant = (strict_eq (oget msg ''type'') (JStr ''gp2'')
                           \<and> strict_eq (oget msg ''subtype'') (JStr ''modify''));
          isContact = (strict_eq (oget msg ''type'') (JStr ''notification_template'')
                       \<and> strict_eq (oget msg ''subtype'') (JStr ''change_number''))
      in if isParticipant \<or> isContact then
           (case Message_patch msg of
              Inl e \<Rightarrow> (last_message', Inl e)
            | Inr (message, msg') \<Rightarrow>
                (Some msg',
                 bind_err (if isParticipant then index0 (oget msg' ''recipients'')
                           else Inr (oget msg' ''to'')) (\<lambda>newId.
                 bind_err (if isParticipant then Inr (oget msg' ''author'')
                           else find_not_equal (oget msg' ''templateParams'') newId) (\<lambda>oldId.
                   Inr [Emit CONTACT_CHANGED
                          [AMessage message, AValue oldId, AValue newId,
                           AValue (JBool isContact)]]))))
         else (last_message', Inr []))"

subsection \<open>\<open>onAppStateChangedEvent\<close>\<close>

definition ACCEPTED_STATES :: "options \<Rightarrow> jsval list" where
  "ACCEPTED_STATES opts =
     [JStr CONNECTED, JStr OPENING, JStr PAIRING, JStr TIMEOUT]
     @ (if truthy (takeoverOnConflict opts) then [JStr CONFLICT] else [])"

definition onAppStateChangedEvent :: "options \<Rightarrow> jsval \<Rightarrow> action list" where
  "onAppStateChangedEvent opts state =
     [Emit STATE_CHANGED [AValue state]]
     @ (if truthy (takeoverOnConflict opts) \<and> strict_eq state (JStr CONFLICT)
        then [SetTimeout_takeover (takeoverTimeoutMs opts)] else [])
     @ (if \<not> includes_val (ACCEPTED_STATES opts) state
        then [Emit DISCONNECTED [AValue state], Destroy] else [])"

section \<open>Calls into the page\<close>

text \<open>
  The commands run inside the browser page and call the functions the page exposes
  (\<open>window.WPP\<close>, the page's stores, and the helpers of \<open>Util\<close> that are not among the
  sources). What such a function returns or raises is the page's business: the page is a
  parameter that gives, for a function name and its arguments, the outcome of the call.
  A command's result is the list of the calls it made, in order, and its value or the
  error that stopped it.
\<close>

type_synonym page = "string \<Rightarrow> jsval list \<Rightarrow> error + jsval"

datatype call = Call string "jsval list"

type_synonym 'a io = "call list \<times> (error + 'a)"

definition invoke :: "page \<Rightarrow> string \<Rightarrow> jsval list \<Rightarrow> jsval io" where
  "invoke pg f args = ([Call f args], pg f args)"

definition ret :: "'a \<Rightarrow> 'a io" where
  "ret v = ([], Inr v)"

definition lift :: "error + 'a \<Rightarrow> 'a io" where
  "lift r = ([], r)"

definition bind_io :: "'a io \<Rightarrow> ('a \<Rightarrow> 'b io) \<Rightarrow> 'b io" where
  "bind_io r f =
     (case r of
        (cs, Inl e) \<Rightarrow> (cs, Inl e)
      | (cs, Inr v) \<Rightarrow> (case f v of (cs', r') \<Rightarrow> (cs @ cs', r')))"

text \<open>
  A destructuring default (\<open>const { k = d } = options\<close>), \<open>x.includes(pat)\<close> on any value,
  and the assignment \<open>o.k = v\<close>.
\<close>

definition js_default :: "jsval \<Rightarrow> jsval \<Rightarrow> jsval" where
  "js_default v d = (if v = JUndefined then d else v)"

fun js_includes :: "jsval \<Rightarrow> string \<Rightarrow> error + bool" where
  "js_includes (JStr s) pat = Inr (includes_str pat s)"
| "js_includes (JArr xs) pat = Inr (includes_val xs (JStr pat))"
| "js_includes _ pat = Inl TypeError"

definition set_prop :: "obj \<Rightarrow> string \<Rightarrow> jsval \<Rightarrow> obj" where
  "set_prop ps k v =
     (if map_of ps k = None then ps @ [(k, v)]
      else map (\<lambda>p. if fst p = k then (k, v) else p) ps)"

fun set_member :: "jsval \<Rightarrow> string \<Rightarrow> jsval \<Rightarrow> jsval" where
  "set_member (JObj ps) k v = JObj (set_prop ps k v)"
| "set_member x k v = x"

section \<open>\<open>GroupChat.addParticipants\<close>\<close>

text \<open>
  The fallback invitation of the \<open>403\<close> branch: the arguments of
  \<open>sendGroupInviteMessage\<close> are evaluated left to right, then the call is made and its
  answer compared with \<open>'OK'\<close> in the form the page's version uses.
\<close>

definition sendInviteV4 :: "page \<Rightarrow> jsval \<Rightarrow> jsval \<Rightarrow> jsval \<Rightarrow> jsval \<Rightarrow> jsval \<Rightarrow> jsval io" where
  "sendInviteV4 pg groupWid groupChat userChat rpcResult comment =
     bind_io (lift (bind_err (member groupChat ''formattedTitle'') (\<lambda>t.
                      if truthy t then Inr t else member groupChat ''name''))) (\<lambda>groupName.
     bind_io (lift (bind_err (member groupChat ''id'') (\<lambda>i. member i ''_serialized''))) (\<lambda>gid.
     bind_io (lift (member rpcResult ''invite_code'')) (\<lambda>code.
     bind_io (lift (member rpcResult ''invite_code_exp'')) (\<lambda>code_exp.
     bind_io (invoke pg ''WAJS.getProfilePicThumbToBase64'' [groupWid]) (\<lambda>thumb.
     bind_io (invoke pg ''WPP.whatsapp.ChatModel.sendGroupInviteMessage''
                [userChat, gid, groupName, code, code_exp, comment, thumb]) (\<lambda>res.
     bind_io (invoke pg ''WAJS.compareWwebVersions''
                [JStr ''Debug.VERSION'', JStr ''<'', JStr ''2.2335.6'']) (\<lambda>old.
       if truthy old then ret (JBool (strict_eq res (JStr ''OK'')))
       else bind_io (lift (member res ''messageSendResult'')) (\<lambda>r.
              ret (JBool (strict_eq r (JStr ''OK'')))))))))))"

text \<open>The body of the \<open>for\<close> loop for one participant; its value is what \<open>return rpcResult\<close> returns.\<close>

definition addParticipants_body ::
    "page \<Rightarrow> string \<Rightarrow> jsval \<Rightarrow> jsval \<Rightarrow> jsval \<Rightarrow> jsval \<Rightarrow> string \<Rightarrow> jsval io" where
  "addParticipants_body pg groupId groupWid groupChat autoSendInviteV4 comment participant =
     bind_io (invoke pg ''WPP.whatsapp.WidFactory.createWid'' [JStr participant]) (\<lambda>pWid.
     bind_io (invoke pg ''WPP.group.addParticipants'' [JStr groupId, JArr [JStr participant]])
       (\<lambda>result.
     bind_io (lift (member result participant)) (\<lambda>rpcResult.
     bind_io (if truthy autoSendInviteV4
              then lift (bind_err (member rpcResult ''code'') (\<lambda>c.
                           Inr (strict_eq c (JNum (Fin 403)))))
              else ret False) (\<lambda>restricted.
       if restricted then
         bind_io (invoke pg ''WPP.whatsapp.ContactStore.gadd''
                    [pWid, JObj [(''silent'', JBool True)]]) (\<lambda>_.
         bind_io (lift (bind_err (member rpcResult ''message'') (\<lambda>m.
                          js_includes m ''ParticipantRequestCodeCanBeSent''))) (\<lambda>canSend.
         bind_io (if canSend then invoke pg ''WPP.whatsapp.ChatStore.find'' [pWid]
                  else ret JUndefined) (\<lambda>userChat.
         bind_io (if truthy userChat
                  then sendInviteV4 pg groupWid groupChat userChat rpcResult comment
                  else ret (JBool False)) (\<lambda>isInviteV4Sent.
           ret (set_member rpcResult ''isInviteV4Sent'' isInviteV4Sent)))))
       else ret rpcResult))))"

text \<open>
  \<open>for (let participant of participantIds) { ...; return rpcResult; }\<close>: the \<open>return\<close> is the
  last statement of the loop body, so the first iteration ends the function; an empty array
  falls through the loop and the function returns \<open>undefined\<close>.
\<close>

fun addParticipants_loop ::
    "page \<Rightarrow> string \<Rightarrow> jsval \<Rightarrow> jsval \<Rightarrow> jsval \<Rightarrow> jsval \<Rightarrow> string list \<Rightarrow> jsval io" where
  "addParticipants_loop pg groupId groupWid groupChat autoSendInviteV4 comment [] = ret JUndefined"
| "addParticipants_loop pg groupId groupWid groupChat autoSendInviteV4 comment (participant # rest) =
     addParticipants_body pg groupId groupWid groupChat autoSendInviteV4 comment participant"

definition addParticipants :: "page \<Rightarrow> string \<Rightarrow> string list \<Rightarrow> obj \<Rightarrow> jsval io" where
  "addParticipants pg groupId participantIds opts =
     (let autoSendInviteV4 = js_default (oget opts ''autoSendInviteV4'') (JBool True);
          comment = js_default (oget opts ''comment'') (JStr [])
      in bind_io (invoke pg ''WPP.whatsapp.WidFactory.createWid'' [JStr groupId]) (\<lambda>groupWid.
         bind_io (invoke pg ''WPP.whatsapp.ChatStore.find'' [groupWid]) (\<lambda>groupChat.
           addParticipants_loop pg groupId groupWid groupChat autoSendInviteV4 comment
             participantIds)))"

section \<open>\<open>Client.approveGroupMembershipRequests\<close> and \<open>rejectGroupMembershipRequests\<close>\<close>

definition approveGroupMembershipRequests :: "page \<Rightarrow> string \<Rightarrow> obj \<Rightarrow> jsval io" where
  "approveGroupMembershipRequests pg groupId opts =
     invoke pg ''WPP.group.approve''
       [JStr groupId, js_default (oget opts ''requesterIds'') JNull]"

definition rejectGroupMembershipRequests :: "page \<Rightarrow> string \<Rightarrow> obj \<Rightarrow> jsval io" where
  "rejectGroupMembershipRequests pg groupId opts =
     invoke pg ''WPP.group.reject''
       [JStr groupId, js_default (oget opts ''requesterIds'') JNull]"

section \<open>\<open>Client.sendMessage\<close>\<close>

text \<open>
  The content of a message is a value, an instance of one of the library's classes (which
  is what \<open>instanceof\<close> tests), or an array of contents. Crossing into the page keeps the
  fields and drops the class.
\<close>

datatype jsclass = MessageMedia_class | Location_class | Poll_class | Contact_class

datatype content =
    Plain jsval
  | Instance jsclass obj
  | Array "content list"

fun serialize :: "content \<Rightarrow> jsval" where
  "serialize (Plain v) = v"
| "serialize (Instance c ps) = JObj ps"
| "serialize (Array xs) = JArr (map serialize xs)"

fun instanceof :: "content \<Rightarrow> jsclass \<Rightarrow> bool" where
  "instanceof (Instance c ps) c' = (c = c')"
| "instanceof _ c' = False"

text \<open>\<open>String(v)\<close>, as a template literal and \<open>RegExp.test\<close> apply it.\<close>

fun digits :: "nat \<Rightarrow> string" where
  "digits n =
     (if n < 10 then [''0123456789'' ! n]
      else digits (n div 10) @ [''0123456789'' ! (n mod 10)])"

definition show_int :: "int \<Rightarrow> string" where
  "show_int i = (if i < 0 then CHR ''-'' # digits (nat (- i)) else digits (nat i))"

fun to_string :: "jsval \<Rightarrow> string"
  and join_elems :: "jsval list \<Rightarrow> string" where
  "to_string JUndefined = ''undefined''"
| "to_string JNull = ''null''"
| "to_string (JBool b) = (if b then ''true'' else ''false'')"
| "to_string (JNum NaN) = ''NaN''"
| "to_string (JNum (Fin i)) = show_int i"
| "to_string (JStr s) = s"
| "to_string (JArr xs) = join_elems xs"
| "to_string (JObj ps) = ''[object Object]''"
| "join_elems [] = []"
| "join_elems [x] = (if x = JUndefined \<or> x = JNull then [] else to_string x)"
| "join_elems (x # y # ys) =
     (if x = JUndefined \<or> x = JNull then [] else to_string x) @ '','' @ join_elems (y # ys)"

definition regex_test :: "string \<Rightarrow> jsval \<Rightarrow> bool" where
  "regex_test pat v = includes_str pat (to_string v)"

text \<open>\<open>options.mentions.map(v => typeof v === 'object' ? v.id._serialized : v)\<close>\<close>

fun map_id_serialized :: "bool \<Rightarrow> jsval list \<Rightarrow> error + jsval list" where
  "map_id_serialized only_objects [] = Inr []"
| "map_id_serialized only_objects (v # vs) =
     bind_err (if only_objects \<and> \<not> typeof_object v then Inr v
               else bind_err (member v ''id'') (\<lambda>i. member i ''_serialized'')) (\<lambda>w.
     bind_err (map_id_serialized only_objects vs) (\<lambda>ws. Inr (w # ws)))"

definition mentionedJidList_of :: "jsval \<Rightarrow> error + jsval" where
  "mentionedJidList_of mentions =
     (case mentions of
        JArr vs \<Rightarrow> bind_err (map_id_serialized True vs) (\<lambda>ws. Inr (JArr ws))
      | _ \<Rightarrow> Inr (JArr []))"

text \<open>
  The first half of \<open>sendMessage\<close>, in Node: the internal options, then the dispatch on the
  content's class. \<open>opts\<close> is the \<open>options\<close> argument and \<open>media\<close> its \<open>media\<close> property.
  The result is the message that will be handed to the page and the internal options.
\<close>

definition internalOptions_of :: "obj \<Rightarrow> error + obj" where
  "internalOptions_of opts =
     bind_err (mentionedJidList_of (oget opts ''mentions'')) (\<lambda>mentioned.
       Inr [(''linkPreview'',
               if strict_eq (oget opts ''linkPreview'') (JBool False) then JUndefined
               else JBool True),
            (''sendAudioAsVoice'', oget opts ''sendAudioAsVoice''),
            (''sendVideoAsGif'', oget opts ''sendVideoAsGif''),
            (''sendMediaAsSticker'', oget opts ''sendMediaAsSticker''),
            (''sendMediaAsDocument'', oget opts ''sendMediaAsDocument''),
            (''caption'', oget opts ''caption''),
            (''quotedMessageId'', oget opts ''quotedMessageId''),
            (''parseVCards'',
               if strict_eq (oget opts ''parseVCards'') (JBool False) then JBool False
               else JBool True),
            (''mentionedJidList'', mentioned),
            (''extraOptions'', oget opts ''extra''),
            (''messageId'', oget opts ''messageId'')])"

definition dispatch_content :: "content \<Rightarrow> obj \<Rightarrow> content \<Rightarrow> obj \<Rightarrow> error + (jsval \<times> obj)" where
  "dispatch_content content opts media internalOptions =
     (if instanceof content MessageMedia_class then
        Inr (JStr [],
             set_prop (set_prop internalOptions ''attachment'' (serialize content))
               ''isViewOnce'' (oget opts ''isViewOnce''))
      else if instanceof media MessageMedia_class then
        Inr (JStr [],
             set_prop (set_prop (set_prop internalOptions ''attachment'' (serialize media))
               ''caption'' (serialize content)) ''isViewOnce'' (oget opts ''isViewOnce''))
      else if instanceof content Location_class then
        Inr (JStr [], set_prop internalOptions ''location'' (serialize content))
      else if instanceof content Poll_class then
        Inr (JStr [], set_prop internalOptions ''poll'' (serialize content))
      else if instanceof content Contact_class then
        bind_err (bind_err (member (serialize content) ''id'') (\<lambda>i. member i ''_serialized''))
          (\<lambda>card. Inr (JStr [], set_prop internalOptions ''contactCard'' card))
      else
        (case content of
           Array (c # cs) \<Rightarrow>
             (if instanceof c Contact_class then
                bind_err (map_id_serialized False (map serialize (c # cs))) (\<lambda>cards.
                  Inr (JStr [], set_prop internalOptions ''contactCardList'' (JArr cards)))
              else Inr (serialize content, internalOptions))
         | _ \<Rightarrow> Inr (serialize content, internalOptions)))"

text \<open>
  The function \<open>sendMessage\<close> evaluates in the page. \<open>status_send\<close> is the common shape of
  the three status branches: the entry point is called, and the stored message with the id
  of its result is fetched and serialised.
\<close>

definition status_send :: "page \<Rightarrow> string \<Rightarrow> jsval \<Rightarrow> obj \<Rightarrow> jsval io" where
  "status_send pg entry payload internalOptions =
     bind_io (invoke pg entry [payload, JObj internalOptions]) (\<lambda>result.
     bind_io (lift (member result ''id'')) (\<lambda>rid.
     bind_io (invoke pg ''WPP.whatsapp.MsgStore.get'' [rid]) (\<lambda>stored.
     bind_io (lift (member stored ''serialize'')) (\<lambda>_.
       invoke pg ''serialize'' [stored]))))"

definition data_url :: "jsval \<Rightarrow> error + jsval" where
  "data_url message =
     bind_err (member message ''mimetype'') (\<lambda>mimetype.
     bind_err (member message ''data'') (\<lambda>d.
       Inr (JStr (''data:'' @ to_string mimetype @ '';base64,'' @ to_string d))))"

definition sendMessage_page :: "page \<Rightarrow> string \<Rightarrow> jsval \<Rightarrow> obj \<Rightarrow> jsval \<Rightarrow> jsval io" where
  "sendMessage_page pg chat_id message internalOptions sendSeen =
     (if chat_id = ''status@broadcast'' then
        (if typeof_string message then
           status_send pg ''WPP.status.sendTextStatus'' message internalOptions
         else
           bind_io (lift (member message ''mimetype'')) (\<lambda>mimetype.
             if regex_test ''image'' mimetype then
               bind_io (lift (data_url message)) (\<lambda>url.
                 status_send pg ''WPP.status.sendImageStatus'' url internalOptions)
             else if regex_test ''video'' mimetype then
               bind_io (lift (data_url message)) (\<lambda>url.
                 status_send pg ''WPP.status.sendVideoStatus'' url internalOptions)
             else lift (Inl (Error ''Invalid type for status broadcast''))))
      else
        bind_io (invoke pg ''WPP.whatsapp.WidFactory.createWid'' [JStr chat_id]) (\<lambda>chatWid.
        bind_io (invoke pg ''WPP.whatsapp.ChatStore.find'' [chatWid]) (\<lambda>chat.
        bind_io (if truthy sendSeen
                 then invoke pg ''WPP.whatsapp.functions.sendSeen'' [chat, JBool False]
                 else ret JUndefined) (\<lambda>_.
        bind_io (invoke pg ''WAJS.sendMessage'' [chat, message, JObj internalOptions, sendSeen])
          (\<lambda>msg.
        bind_io (lift (member msg ''serialize'')) (\<lambda>_.
          invoke pg ''serialize'' [msg]))))))"

text \<open>
  \<open>new Message(this, data)\<close>: the constructor patches only a truthy \<open>data\<close>; \<open>None\<close> is the
  message without any property. A truthy value that is not an object has no \<open>id\<close>, and
  \<open>_patch\<close> raises on it.
\<close>

definition new_Message :: "jsval \<Rightarrow> error + message option" where
  "new_Message data =
     (if truthy data then
        (case data of
           JObj d \<Rightarrow> bind_err (Message_patch d) (\<lambda>(m, d'). Inr (Some m))
         | _ \<Rightarrow> Inl TypeError)
      else Inr None)"

definition sendMessage :: "page \<Rightarrow> string \<Rightarrow> content \<Rightarrow> obj \<Rightarrow> content \<Rightarrow> message option io" where
  "sendMessage pg chat_id content opts media =
     bind_io (lift (internalOptions_of opts)) (\<lambda>internalOptions.
       (let sendSeen = (if oget opts ''sendSeen'' = JUndefined then JBool True
                        else oget opts ''sendSeen'')
        in bind_io (lift (dispatch_content content opts media internalOptions))
             (\<lambda>(message, internalOptions).
           bind_io (if truthy (oget internalOptions ''sendMediaAsSticker'')
                       \<and> truthy (oget internalOptions ''attachment'')
                    then bind_io (invoke pg ''Util.formatToWebpSticker''
                                    [oget internalOptions ''attachment'',
                                     JObj [(''name'', oget opts ''stickerName''),
                                           (''author'', oget opts ''stickerAuthor''),
                                           (''categories'', oget opts ''stickerCategories''),
                                           (''isAvatarSticker'', oget opts ''stickerIsAvatar'')]])
                           (\<lambda>sticker. ret (set_prop internalOptions ''attachment'' sticker))
                    else ret internalOptions) (\<lambda>internalOptions.
           bind_io (sendMessage_page pg chat_id message internalOptions sendSeen) (\<lambda>newMessage.
             lift (new_Message newMessage))))))"

section \<open>Concrete inputs\<close>

text \<open>Inputs on which the theorems below are instantiated and the code is evaluated.\<close>

definition options_example :: options where
  "options_example =
     \<lparr> qrMaxRetries = Fin 2, takeoverOnConflict = JBool False, takeoverTimeoutMs = JNum (Fin 0) \<rparr>"

definition chat_snapshot :: obj where
  "chat_snapshot =
     [(''id'', JObj [(''fromMe'', JBool False), (''remote'', JStr ''628111@c.us''),
                     (''id'', JStr ''3A0001''), (''_serialized'', JStr ''false_628111@c.us_3A0001'')]),
      (''type'', JStr ''chat''), (''body'', JStr ''hello''), (''t'', JNum (Fin 1700000000)),
      (''from'', JStr ''628111@c.us''), (''to'', JStr ''628222@c.us'')]"

definition poll_snapshot :: obj where
  "poll_snapshot =
     [(''id'', JObj [(''fromMe'', JBool True), (''remote'', JStr ''628111@c.us''),
                     (''id'', JStr ''3A0002'')]),
      (''type'', JStr ''poll_creation''),
      (''pollName'', JStr ''Lunch?''),
      (''pollOptions'', JArr [JObj [(''name'', JStr ''yes'')], JObj [(''name'', JStr ''no'')]]),
      (''pollSelectableOptionsCount'', JNum (Fin 1)),
      (''t'', JNum (Fin 1700000000))]"



definition participant_modify_snapshot :: obj where
  "participant_modify_snapshot =
     [(''id'', JObj [(''fromMe'', JBool False), (''remote'', JStr ''12036@g.us''),
                     (''id'', JStr ''3A0003'')]),
      (''type'', JStr ''gp2''), (''subtype'', JStr ''modify''),
      (''author'', JStr ''628111@c.us''),
      (''recipients'', JArr [JStr ''628999@c.us''])]"

definition change_number_snapshot :: obj where
  "change_number_snapshot =
     [(''id'', JObj [(''fromMe'', JBool False), (''remote'', JStr ''628111@c.us''),
                     (''id'', JStr ''3A0004'')]),
      (''type'', JStr ''notification_template''), (''subtype'', JStr ''change_number''),
      (''to'', JStr ''628999@c.us''),
      (''templateParams'', JArr [JStr ''628999@c.us'', JStr ''628111@c.us''])]"

definition status_media_snapshot :: obj where
  "status_media_snapshot =
     [(''id'', JObj [(''fromMe'', JBool False), (''remote'', JStr ''status@broadcast''),
                     (''id'', JStr ''3A0005'')]),
      (''type'', JStr ''image''), (''mediaKey'', JStr ''a2V5''),
      (''directPath'', JStr ''/v/t62.7118-24/1''), (''caption'', JStr ''sunset'')]"

text \<open>
  A page on which every call succeeds: \<open>WPP.group.addParticipants\<close> answers with code 200
  for the participant it is given, \<open>serialize\<close> gives a chat message, and every other
  function returns an object with an id.
\<close>

definition page_example :: page where
  "page_example f args =
     (if f = ''WPP.group.addParticipants'' then
        (case args of
           [g, JArr [JStr p]] \<Rightarrow>
             Inr (JObj [(p, JObj [(''code'', JNum (Fin 200)), (''message'', JStr ''OK'')])])
         | _ \<Rightarrow> Inl (Rejected ''unexpected arguments''))
      else if f = ''serialize'' then Inr (JObj chat_snapshot)
      else Inr (JObj [(''id'', JStr ''3A0007'')]))"

definition image_media :: content where
  "image_media =
     Instance MessageMedia_class
       [(''mimetype'', JStr ''image/png''), (''data'', JStr ''iVBORw0KGgo='')]"

definition some_location :: content where
  "some_location =
     Instance Location_class [(''latitude'', JNum (Fin 6)), (''longitude'', JNum (Fin 106))]"


definition change_number_wid_snapshot :: obj where
  "change_number_wid_snapshot =
     [(''id'', JObj [(''fromMe'', JBool False), (''remote'', JStr ''628111@c.us''),
                     (''id'', JStr ''3A0004'')]),
      (''type'', JStr ''notification_template''), (''subtype'', JStr ''change_number''),
      (''to'', JObj [(''server'', JStr ''c.us''), (''user'', JStr ''628999''),
                     (''_serialized'', JStr ''628999@c.us'')]),
      (''templateParams'', JArr [JStr ''628999@c.us'', JStr ''628111@c.us''])]"

definition sent_status_snapshot :: obj where
  "sent_status_snapshot =
     [(''id'', JObj [(''fromMe'', JBool True),
                     (''remote'', JObj [(''server'', JStr ''broadcast''), (''user'', JStr ''status''),
                                        (''_serialized'', JStr ''status@broadcast'')]),
                     (''id'', JStr ''3A0008''),
                     (''_serialized'', JStr ''true_status@broadcast_3A0008'')]),
      (''type'', JStr ''chat''), (''body'', JStr ''hello''),
      (''t'', JNum (Fin 1700000900)),
      (''to'', JObj [(''server'', JStr ''broadcast''), (''user'', JStr ''status''),
                     (''_serialized'', JStr ''status@broadcast'')])]"

text \<open>A page whose \<open>serialize\<close> gives the status message just sent.\<close>

definition page_status :: page where
  "page_status f args =
     (if f = ''serialize'' then Inr (JObj sent_status_snapshot)
      else Inr (JObj [(''id'', JStr ''true_status@broadcast_3A0008'')]))"

section \<open>Auxiliary lemmas\<close>

lemma strict_eq_JStr [simp]: "strict_eq v (JStr s) = (v = JStr s)"
  by (induction v "JStr s" rule: strict_eq.induct) auto

lemma strict_eq_JStr_left [simp]: "strict_eq (JStr s) v = (v = JStr s)"
  by (induction "JStr s" v rule: strict_eq.induct) auto

lemma oget_delete_prop: "k \<noteq> k' \<Longrightarrow> oget (delete_prop ps k') k = oget ps k"
  by (induction ps) (auto simp: oget_def delete_prop_def)

lemma oget_delete_poll_keys:
  "k \<notin> set poll_keys \<Longrightarrow> oget (fold (\<lambda>k d. delete_prop d k) poll_keys ps) k = oget ps k"
  by (simp add: poll_keys_def oget_delete_prop)

text \<open>What a successful \<open>_patch\<close> tells about the snapshot and the message.\<close>

lemma Message_patch_Inr:
  assumes "Message_patch d = Inr (m, d')"
  shows "\<exists>id_id id_remote id_fromMe.
           member (oget d ''id'') ''id'' = Inr id_id
         \<and> member (oget d ''id'') ''remote'' = Inr id_remote
         \<and> member (oget d ''id'') ''fromMe'' = Inr id_fromMe
         \<and> hasMedia m = Boolean (js_and (oget d ''mediaKey'') (oget d ''directPath''))
         \<and> isStatus m = js_or (oget d ''isStatusV3'')
                           (JBool (strict_eq id_remote (JStr ''status@broadcast'')))
         \<and> fromMe m = id_fromMe
         \<and> priv_data m = d'
         \<and> d' = (if oget d ''type'' = JStr POLL_CREATION
                  then fold (\<lambda>k d. delete_prop d k) poll_keys d else d)"
  using assms
  by (auto simp: Message_patch_def bind_err_def Let_def split: sum.splits)

lemma qrChanged_nan:
  assumes "num_gt (qrMaxRetries opts) (Fin 0)" and "r = None \<or> r = Some NaN"
  shows "qrChanged opts r q = (Some NaN, [Emit QR_RECEIVED [AValue q]])"
  using assms by (auto simp: qrChanged_def Let_def)

lemma qrChanged_run_nan:
  assumes "num_gt (qrMaxRetries opts) (Fin 0)" and "r = None \<or> r = Some NaN"
  shows "snd (qrChanged_run opts r qrs) = map (\<lambda>qr. Emit QR_RECEIVED [AValue qr]) qrs"
  using assms(2)
proof (induction qrs arbitrary: r)
  case Nil
  then show ?case by simp
next
  case (Cons q qrs)
  have step: "qrChanged opts r q = (Some NaN, [Emit QR_RECEIVED [AValue q]])"
    using qrChanged_nan [OF assms(1) Cons.prems] .
  have "snd (qrChanged_run opts (Some NaN) qrs) = map (\<lambda>qr. Emit QR_RECEIVED [AValue qr]) qrs"
    using Cons.IH [of "Some NaN"] by simp
  then show ?case
    by (cases "qrChanged_run opts (Some NaN) qrs") (simp add: step)
qed

lemma qrChanged_run_counter:
  assumes "num_gt (qrMaxRetries opts) (Fin 0)" and "r = None \<or> r = Some NaN"
  shows "fst (qrChanged_run opts r qrs) = (if qrs = [] then r else Some NaN)"
  using assms(2)
proof (induction qrs arbitrary: r)
  case Nil
  then show ?case by simp
next
  case (Cons q qrs)
  have step: "qrChanged opts r q = (Some NaN, [Emit QR_RECEIVED [AValue q]])"
    using qrChanged_nan [OF assms(1) Cons.prems] .
  have "fst (qrChanged_run opts (Some NaN) qrs) = Some NaN"
    using Cons.IH [of "Some NaN"] by simp
  then show ?case
    by (cases "qrChanged_run opts (Some NaN) qrs") (simp add: step)
qed

lemma includes_ACCEPTED_STATES:
  "includes_val (ACCEPTED_STATES opts) state =
     (state \<in> {JStr CONNECTED, JStr OPENING, JStr PAIRING, JStr TIMEOUT}
      \<or> (truthy (takeoverOnConflict opts) \<and> state = JStr CONFLICT))"
  by (auto simp: ACCEPTED_STATES_def includes_val_def)

lemma Message_patch_id:
  assumes "Message_patch d = Inr (m, d')"
  shows "oget d' ''id'' = oget d ''id''"
proof -
  have "d' = (if oget d ''type'' = JStr POLL_CREATION
              then fold (\<lambda>k d. delete_prop d k) poll_keys d else d)"
    using Message_patch_Inr [OF assms] by blast
  moreover have "''id'' \<notin> set poll_keys"
    by (simp add: poll_keys_def)
  ultimately show ?thesis
    by (simp add: oget_delete_poll_keys)
qed

lemma member_other_key:
  assumes "member x k = Inr a"
  shows "\<exists>b. member x k' = Inr b"
  using assms by (cases x) auto

lemma Message_patch_succeeds:
  assumes "member (oget d ''id'') ''id'' = Inr a"
      and "vCards_of d = Inr v"
      and "inviteV4_of d = Inr i"
      and "selectedRowId_of d = Inr r"
  shows "\<exists>m d'. Message_patch d = Inr (m, d')"
proof -
  obtain b where b: "member (oget d ''id'') ''remote'' = Inr b"
    using member_other_key [OF assms(1)] by blast
  obtain c where c: "member (oget d ''id'') ''fromMe'' = Inr c"
    using member_other_key [OF assms(1)] by blast
  show ?thesis
    by (simp add: Message_patch_def bind_err_def assms b c Let_def)
qed

lemma Message_patch_type:
  assumes "Message_patch d = Inr (m, d')"
  shows "oget d' ''type'' = oget d ''type''"
proof -
  have "d' = (if oget d ''type'' = JStr POLL_CREATION
              then fold (\<lambda>k d. delete_prop d k) poll_keys d else d)"
    using Message_patch_Inr [OF assms] by blast
  moreover have "''type'' \<notin> set poll_keys"
    by (simp add: poll_keys_def)
  ultimately show ?thesis
    by (simp add: oget_delete_poll_keys)
qed

lemma Message_patch_plain:
  assumes "oget d ''id'' = JObj i"
      and "oget d ''type'' \<notin> {JStr CONTACT_CARD_MULTI, JStr GROUP_INVITE}"
      and "oget d ''listResponse'' = JUndefined"
  shows "\<exists>m d'. Message_patch d = Inr (m, d')"
  using assms
  by (intro Message_patch_succeeds [where a = "oget i ''id''"
        and v = "if oget d ''type'' = JStr CONTACT_CARD then JArr [oget d ''body''] else JArr []"
        and i = JUndefined and r = JUndefined])
     (auto simp: vCards_of_def inviteV4_of_def selectedRowId_of_def)

lemma Message_patch_unchanged:
  assumes "Message_patch d = Inr (m, d')" and "oget d ''type'' \<noteq> JStr POLL_CREATION"
  shows "d' = d"
  using Message_patch_Inr [OF assms(1)] assms(2) by auto

lemma bind_io_simps [simp]:
  "bind_io (cs, Inl e) f = (cs, Inl e)"
  "bind_io (cs, Inr v) f = (cs @ fst (f v), snd (f v))"
  by (simp_all add: bind_io_def split: prod.splits)

lemma bind_io_ret [simp]: "bind_io (ret v) k = k v"
  by (simp add: ret_def)

lemma map_of_overwrite_other:
  "k \<noteq> k' \<Longrightarrow> map_of (map (\<lambda>p. if fst p = k' then (k', v) else p) ps) k = map_of ps k"
  by (induction ps) auto

lemma oget_set_prop_other: "k \<noteq> k' \<Longrightarrow> oget (set_prop ps k' v) k = oget ps k"
  by (auto simp: oget_def set_prop_def map_of_overwrite_other map_add_def split: option.splits)

text \<open>The properties of a message that are copies of the snapshot's fields.\<close>

lemma Message_patch_fields:
  assumes "Message_patch d = Inr (m, d')"
  shows "rawData m = d'
       \<and> msg_id m = oget d ''id''
       \<and> msg_type m = oget d ''type''
       \<and> timestamp m = oget d ''t''
       \<and> ack m = oget d ''ack''
       \<and> msg_from m = serialized_or_self (oget d ''from'')
       \<and> msg_to m = serialized_or_self (oget d ''to'')
       \<and> author m = serialized_or_self (oget d ''author'')
       \<and> body m = (if truthy (js_and (oget d ''mediaKey'') (oget d ''directPath''))
                   then js_or (oget d ''caption'') (JStr [])
                   else js_or (js_or (oget d ''body'') (oget d ''pollName'')) (JStr []))"
  using assms
  by (auto simp: Message_patch_def bind_err_def Let_def rawData_def Boolean_def split: sum.splits)

lemma Message_patch_keeps_other_fields:
  assumes "Message_patch d = Inr (m, d')"
  shows "(oget d ''type'' \<noteq> JStr POLL_CREATION \<longrightarrow> d' = d)
       \<and> (\<forall>k. k \<notin> set poll_keys \<longrightarrow> oget d' k = oget d k)"
proof -
  have "d' = (if oget d ''type'' = JStr POLL_CREATION
              then fold (\<lambda>k d. delete_prop d k) poll_keys d else d)"
    using Message_patch_Inr [OF assms] by blast
  then show ?thesis
    by (simp add: oget_delete_poll_keys)
qed

section \<open>General facts about the handlers and the constructor\<close>

text \<open>
  What \<open>onChangeMessageEvent\<close> emits, for any payload from which a \<open>Message\<close> can be
  built. For a change of number the old id is the first template parameter that is not
  \<open>===\<close> the \<open>to\<close> field.
\<close>

lemma onChangeMessageEvent_contact_changed:
  "(oget msg ''type'' = JStr ''gp2'' \<and> oget msg ''subtype'' = JStr ''modify''
      \<and> Message_patch msg = Inr (message, msg')
      \<and> oget msg ''recipients'' = JArr (newId # others) \<longrightarrow>
      snd (onChangeMessageEvent slot msg) =
        Inr [Emit CONTACT_CHANGED
               [AMessage message, AValue (oget msg ''author''), AValue newId,
                AValue (JBool False)]])
   \<and> (oget msg ''type'' = JStr ''notification_template''
      \<and> oget msg ''subtype'' = JStr ''change_number''
      \<and> Message_patch msg = Inr (message, msg')
      \<and> oget msg ''templateParams'' = JArr params \<longrightarrow>
      snd (onChangeMessageEvent slot msg) =
        Inr [Emit CONTACT_CHANGED
               [AMessage message,
                AValue (case find (\<lambda>id. \<not> strict_eq id (oget msg ''to'')) params of
                          None \<Rightarrow> JUndefined | Some oldId \<Rightarrow> oldId),
                AValue (oget msg ''to''), AValue (JBool True)]])
   \<and> (\<not> (oget msg ''type'' = JStr ''gp2'' \<and> oget msg ''subtype'' = JStr ''modify'')
      \<and> \<not> (oget msg ''type'' = JStr ''notification_template''
             \<and> oget msg ''subtype'' = JStr ''change_number'') \<longrightarrow>
      snd (onChangeMessageEvent slot msg) = Inr [])"
proof -
  have participant: "snd (onChangeMessageEvent slot msg) =
        Inr [Emit CONTACT_CHANGED
               [AMessage message, AValue (oget msg ''author''), AValue newId,
                AValue (JBool False)]]"
    if "oget msg ''type'' = JStr ''gp2''" "oget msg ''subtype'' = JStr ''modify''"
       "Message_patch msg = Inr (message, msg')" "oget msg ''recipients'' = JArr (newId # others)"
  proof -
    have "msg' = msg"
      using Message_patch_unchanged [OF that(3)] that(1) by (simp add: POLL_CREATION_def)
    then show ?thesis
      using that by (simp add: onChangeMessageEvent_def Let_def bind_err_def)
  qed
  have contact: "snd (onChangeMessageEvent slot msg) =
        Inr [Emit CONTACT_CHANGED
               [AMessage message,
                AValue (case find (\<lambda>id. \<not> strict_eq id (oget msg ''to'')) params of
                          None \<Rightarrow> JUndefined | Some oldId \<Rightarrow> oldId),
                AValue (oget msg ''to''), AValue (JBool True)]]"
    if "oget msg ''type'' = JStr ''notification_template''"
       "oget msg ''subtype'' = JStr ''change_number''"
       "Message_patch msg = Inr (message, msg')" "oget msg ''templateParams'' = JArr params"
  proof -
    have "msg' = msg"
      using Message_patch_unchanged [OF that(3)] that(1) by (simp add: POLL_CREATION_def)
    then show ?thesis
      using that by (simp add: onChangeMessageEvent_def Let_def bind_err_def)
  qed
  have neither: "snd (onChangeMessageEvent slot msg) = Inr []"
    if "\<not> (oget msg ''type'' = JStr ''gp2'' \<and> oget msg ''subtype'' = JStr ''modify'')"
       "\<not> (oget msg ''type'' = JStr ''notification_template''
             \<and> oget msg ''subtype'' = JStr ''change_number'')"
    using that by (auto simp: onChangeMessageEvent_def Let_def)
  show ?thesis
    using participant contact neither by blast
qed

text \<open>On payloads whose ids are strings the old and the new id come out as the payload has them.\<close>

lemma onChangeMessageEvent_contact_changed_strings:
  "(case (Message_patch participant_modify_snapshot, Message_patch change_number_snapshot) of
      (Inr (message, msg'), Inr (message2, msg2')) \<Rightarrow>
        snd (onChangeMessageEvent None participant_modify_snapshot) =
          Inr [Emit CONTACT_CHANGED
                 [AMessage message, AValue (JStr ''628111@c.us''), AValue (JStr ''628999@c.us''),
                  AValue (JBool False)]]
        \<and> snd (onChangeMessageEvent None change_number_snapshot) =
          Inr [Emit CONTACT_CHANGED
                 [AMessage message2, AValue (JStr ''628111@c.us''), AValue (JStr ''628999@c.us''),
                  AValue (JBool True)]]
    | _ \<Rightarrow> False)
   \<and> snd (onChangeMessageEvent None chat_snapshot) = Inr []"
proof -
  have "\<exists>m d'. Message_patch participant_modify_snapshot = Inr (m, d')"
    by (rule Message_patch_plain)
       (simp_all add: participant_modify_snapshot_def oget_def CONTACT_CARD_MULTI_def GROUP_INVITE_def)
  then obtain message msg' where p: "Message_patch participant_modify_snapshot = Inr (message, msg')"
    by blast
  have "\<exists>m d'. Message_patch change_number_snapshot = Inr (m, d')"
    by (rule Message_patch_plain)
       (simp_all add: change_number_snapshot_def oget_def CONTACT_CARD_MULTI_def GROUP_INVITE_def)
  then obtain message2 msg2' where q: "Message_patch change_number_snapshot = Inr (message2, msg2')"
    by blast
  have f1: "oget participant_modify_snapshot ''type'' = JStr ''gp2''"
       "oget participant_modify_snapshot ''subtype'' = JStr ''modify''"
       "oget participant_modify_snapshot ''recipients'' = JArr [JStr ''628999@c.us'']"
       "oget participant_modify_snapshot ''author'' = JStr ''628111@c.us''"
    by (simp_all add: participant_modify_snapshot_def oget_def)
  have f2: "oget change_number_snapshot ''type'' = JStr ''notification_template''"
       "oget change_number_snapshot ''subtype'' = JStr ''change_number''"
       "oget change_number_snapshot ''templateParams'' = JArr [JStr ''628999@c.us'', JStr ''628111@c.us'']"
       "oget change_number_snapshot ''to'' = JStr ''628999@c.us''"
    by (simp_all add: change_number_snapshot_def oget_def)
  have f3: "oget chat_snapshot ''type'' = JStr ''chat''"
    by (simp add: chat_snapshot_def oget_def)
  show ?thesis
    using onChangeMessageEvent_contact_changed
            [of participant_modify_snapshot message msg' "JStr ''628999@c.us''" "[]" None]
          onChangeMessageEvent_contact_changed
            [of change_number_snapshot message2 msg2' _ _ None "[JStr ''628999@c.us'', JStr ''628111@c.us'']"]
          onChangeMessageEvent_contact_changed [of chat_snapshot _ _ _ _ None]
          p q f1 f2 f3
    by simp
qed

text \<open>
  \<open>hasMedia\<close> is \<open>true\<close> exactly when \<open>mediaKey\<close> and \<open>directPath\<close> are both truthy, and
  \<open>isStatus\<close> is decided by the flag \<open>isStatusV3\<close> and by whether the remote of the id is
  the string \<open>status@broadcast\<close>.
\<close>

lemma Message_hasMedia_isStatus:
  assumes "Message_patch data = Inr (m, data')"
  shows "hasMedia m = JBool (truthy (oget data ''mediaKey'') \<and> truthy (oget data ''directPath''))
       \<and> (oget data ''mediaKey'' \<in> {JUndefined, JNull}
            \<or> oget data ''directPath'' \<in> {JUndefined, JNull} \<longrightarrow> hasMedia m = JBool False)
       \<and> (\<exists>remote. member (oget data ''id'') ''remote'' = Inr remote
            \<and> truthy (isStatus m) =
                (truthy (oget data ''isStatusV3'') \<or> remote = JStr ''status@broadcast'')
            \<and> (oget data ''isStatusV3'' \<in> {JUndefined, JBool False, JBool True} \<longrightarrow>
                  isStatus m = JBool (oget data ''isStatusV3'' = JBool True
                                      \<or> remote = JStr ''status@broadcast'')))"
proof -
  obtain remote where r: "member (oget data ''id'') ''remote'' = Inr remote"
    and s: "isStatus m = js_or (oget data ''isStatusV3'')
                           (JBool (strict_eq remote (JStr ''status@broadcast'')))"
    and h: "hasMedia m = Boolean (js_and (oget data ''mediaKey'') (oget data ''directPath''))"
    using Message_patch_Inr [OF assms] by blast
  have media: "hasMedia m = JBool (truthy (oget data ''mediaKey'') \<and> truthy (oget data ''directPath''))"
    using h by (simp add: Boolean_def js_and_def)
  have absent: "oget data ''mediaKey'' \<in> {JUndefined, JNull}
            \<or> oget data ''directPath'' \<in> {JUndefined, JNull} \<longrightarrow> hasMedia m = JBool False"
    using media by auto
  have status: "truthy (isStatus m) =
                (truthy (oget data ''isStatusV3'') \<or> remote = JStr ''status@broadcast'')"
    using s by (simp add: js_or_def)
  have flag: "oget data ''isStatusV3'' \<in> {JUndefined, JBool False, JBool True} \<longrightarrow>
                  isStatus m = JBool (oget data ''isStatusV3'' = JBool True
                                      \<or> remote = JStr ''status@broadcast'')"
    using s by (auto simp: js_or_def)
  show ?thesis
    using r media absent status flag by blast
qed

text \<open>On snapshots whose remote is a string.\<close>

lemma Message_hasMedia_isStatus_strings:
  "(case Message_patch status_media_snapshot of
      Inr (m, data') \<Rightarrow> hasMedia m = JBool True \<and> isStatus m = JBool True
    | Inl e \<Rightarrow> False)
   \<and> (case Message_patch chat_snapshot of
      Inr (m, data') \<Rightarrow> hasMedia m = JBool False \<and> isStatus m = JBool False
    | Inl e \<Rightarrow> False)"
proof -
  have "\<exists>m d'. Message_patch status_media_snapshot = Inr (m, d')"
    by (rule Message_patch_plain)
       (simp_all add: status_media_snapshot_def oget_def CONTACT_CARD_MULTI_def GROUP_INVITE_def)
  then obtain m d' where p: "Message_patch status_media_snapshot = Inr (m, d')"
    by blast
  have "\<exists>m d'. Message_patch chat_snapshot = Inr (m, d')"
    by (rule Message_patch_plain)
       (simp_all add: chat_snapshot_def oget_def CONTACT_CARD_MULTI_def GROUP_INVITE_def)
  then obtain m2 d2' where q: "Message_patch chat_snapshot = Inr (m2, d2')"
    by blast
  have f: "oget status_media_snapshot ''mediaKey'' = JStr ''a2V5''"
          "oget status_media_snapshot ''directPath'' = JStr ''/v/t62.7118-24/1''"
          "oget status_media_snapshot ''isStatusV3'' = JUndefined"
          "member (oget status_media_snapshot ''id'') ''remote'' = Inr (JStr ''status@broadcast'')"
          "oget chat_snapshot ''mediaKey'' = JUndefined"
          "oget chat_snapshot ''isStatusV3'' = JUndefined"
          "member (oget chat_snapshot ''id'') ''remote'' = Inr (JStr ''628111@c.us'')"
    by (simp_all add: status_media_snapshot_def chat_snapshot_def oget_def)
  show ?thesis
    using Message_hasMedia_isStatus [OF p] Message_hasMedia_isStatus [OF q] f
    by (simp add: p q)
qed

section \<open>General facts about the commands\<close>

text \<open>
  Whatever the page answers, \<open>addParticipants\<close> does with a list of ids exactly what it
  does with the first of them alone.
\<close>

lemma addParticipants_returns_in_first_iteration:
  "addParticipants pg groupId (participant # rest) opts
     = addParticipants pg groupId [participant] opts"
  by (simp add: addParticipants_def)

text \<open>
  The three batch operations never read the \<open>sleep\<close> option: setting it to any value
  changes neither the calls made nor the result.
\<close>

lemma batch_operations_ignore_sleep:
  "approveGroupMembershipRequests pg groupId (set_prop opts ''sleep'' s)
     = approveGroupMembershipRequests pg groupId opts
   \<and> rejectGroupMembershipRequests pg groupId (set_prop opts ''sleep'' s)
     = rejectGroupMembershipRequests pg groupId opts
   \<and> addParticipants pg groupId participantIds (set_prop opts ''sleep'' s)
     = addParticipants pg groupId participantIds opts"
  by (simp add: approveGroupMembershipRequests_def rejectGroupMembershipRequests_def
        addParticipants_def oget_set_prop_other)

text \<open>
  In the page, a string sent to the status broadcast always takes the text entry point;
  and in Node, content that is an instance of \<open>MessageMedia\<close>, \<open>Location\<close> or \<open>Poll\<close> is
  replaced by the empty string before the page sees it.
\<close>

lemma sendMessage_page_status_string:
  "sendMessage_page pg ''status@broadcast'' (JStr s) internalOptions sendSeen
     = status_send pg ''WPP.status.sendTextStatus'' (JStr s) internalOptions"
  by (simp add: sendMessage_page_def)

lemma dispatch_content_clears_instance:
  assumes "c \<in> {MessageMedia_class, Location_class, Poll_class}"
  shows "\<exists>internalOptions'.
           dispatch_content (Instance c ps) opts media internalOptions
             = Inr (JStr [], internalOptions')"
  using assms by (auto simp: dispatch_content_def)

section \<open>The claims\<close>

text \<open>
  C1. The spec: \<open>addParticipants\<close>, given an array of participant ids, iterates over every id,
  makes one add attempt for each and returns a result that covers them all. The code, on
  two ids: the calls it makes are the two that resolve the group and one add attempt, for
  the first id; the result is the answer for that id alone. The second id is never touched.
\<close>

theorem addParticipants_two_ids:
  "addParticipants page_example ''12036@g.us'' [''628111@c.us'', ''628222@c.us''] [] =
     ([Call ''WPP.whatsapp.WidFactory.createWid'' [JStr ''12036@g.us''],
       Call ''WPP.whatsapp.ChatStore.find'' [JObj [(''id'', JStr ''3A0007'')]],
       Call ''WPP.whatsapp.WidFactory.createWid'' [JStr ''628111@c.us''],
       Call ''WPP.group.addParticipants'' [JStr ''12036@g.us'', JArr [JStr ''628111@c.us'']]],
      Inr (JObj [(''code'', JNum (Fin 200)), (''message'', JStr ''OK'')]))"
  by (simp add: addParticipants_def addParticipants_body_def invoke_def
        page_example_def js_default_def oget_def bind_err_def lift_def ret_def)




text \<open>
  C3. The spec: for a \<open>notification_template\<close> payload with subtype \<open>change_number\<close>,
  \<open>to = newId\<close> and \<open>templateParams = [newId, oldId]\<close>, \<open>contact_changed\<close> reports the
  template parameter that is not the new id as old id. The code, on such a payload whose
  \<open>to\<close> is the wid object of \<open>628999@c.us\<close> (the \<open>Message\<close> built from it has
  \<open>to = '628999@c.us'\<close>): no parameter is \<open>===\<close> an object, \<open>find\<close> returns the first
  one, and the event reports \<open>628999@c.us\<close>, the new number, as the old id.
\<close>

theorem onChangeMessageEvent_change_number_wid:
  "oget change_number_wid_snapshot ''templateParams''
     = JArr [JStr ''628999@c.us'', JStr ''628111@c.us'']
   \<and> msg_to (fst (projr (Message_patch change_number_wid_snapshot))) = JStr ''628999@c.us''
   \<and> snd (onChangeMessageEvent None change_number_wid_snapshot) =
       Inr [Emit CONTACT_CHANGED
              [AMessage (fst (projr (Message_patch change_number_wid_snapshot))),
               AValue (JStr ''628999@c.us''),
               AValue (JObj [(''server'', JStr ''c.us''), (''user'', JStr ''628999''),
                             (''_serialized'', JStr ''628999@c.us'')]),
               AValue (JBool True)]]"
proof -
  have "\<exists>m d'. Message_patch change_number_wid_snapshot = Inr (m, d')"
    by (rule Message_patch_plain)
       (simp_all add: change_number_wid_snapshot_def oget_def CONTACT_CARD_MULTI_def
          GROUP_INVITE_def)
  then obtain m d' where p: "Message_patch change_number_wid_snapshot = Inr (m, d')"
    by blast
  have same: "d' = change_number_wid_snapshot"
    using Message_patch_keeps_other_fields [OF p]
    by (simp add: change_number_wid_snapshot_def oget_def POLL_CREATION_def)
  have vals: "oget change_number_wid_snapshot ''type'' = JStr ''notification_template''"
       "oget change_number_wid_snapshot ''subtype'' = JStr ''change_number''"
       "oget change_number_wid_snapshot ''templateParams''
          = JArr [JStr ''628999@c.us'', JStr ''628111@c.us'']"
       "oget change_number_wid_snapshot ''to''
          = JObj [(''server'', JStr ''c.us''), (''user'', JStr ''628999''),
                  (''_serialized'', JStr ''628999@c.us'')]"
    by (simp_all add: change_number_wid_snapshot_def oget_def)
  have wid: "serialized_or_self (JObj [(''server'', JStr ''c.us''), (''user'', JStr ''628999''),
                                       (''_serialized'', JStr ''628999@c.us'')])
             = JStr ''628999@c.us''"
    by (simp add: serialized_or_self_def oget_def)
  have to: "msg_to m = JStr ''628999@c.us''"
    using Message_patch_fields [OF p] by (simp add: vals wid)
  have run: "snd (onChangeMessageEvent None change_number_wid_snapshot) =
       Inr [Emit CONTACT_CHANGED
              [AMessage m, AValue (JStr ''628999@c.us''),
               AValue (JObj [(''server'', JStr ''c.us''), (''user'', JStr ''628999''),
                             (''_serialized'', JStr ''628999@c.us'')]),
               AValue (JBool True)]]"
    by (simp add: onChangeMessageEvent_def Let_def p same vals bind_err_def)
  show ?thesis
    using vals(3) to run by (simp add: p)
qed

text \<open>
  C4. For every connection state the state-change handler sees, a \<open>change_state\<close> event is
  emitted first. A state of the allow-list (\<open>CONNECTED\<close>, \<open>OPENING\<close>, \<open>PAIRING\<close>, \<open>TIMEOUT\<close>,
  and \<open>CONFLICT\<close> when \<open>takeoverOnConflict\<close> is enabled) triggers neither a \<open>disconnected\<close>
  event nor the teardown. Any other state triggers exactly one \<open>disconnected\<close> event,
  emitted before \<open>destroy\<close> is invoked.
\<close>

theorem onAppStateChangedEvent_gating:
  "(\<exists>rest. onAppStateChangedEvent opts state = Emit STATE_CHANGED [AValue state] # rest)
   \<and> (state \<in> {JStr CONNECTED, JStr OPENING, JStr PAIRING, JStr TIMEOUT}
        \<or> (truthy (takeoverOnConflict opts) \<and> state = JStr CONFLICT)
      \<longrightarrow> Destroy \<notin> set (onAppStateChangedEvent opts state)
          \<and> (\<forall>args. Emit DISCONNECTED args \<notin> set (onAppStateChangedEvent opts state)))
   \<and> (\<not> (state \<in> {JStr CONNECTED, JStr OPENING, JStr PAIRING, JStr TIMEOUT}
           \<or> (truthy (takeoverOnConflict opts) \<and> state = JStr CONFLICT))
      \<longrightarrow> onAppStateChangedEvent opts state =
            [Emit STATE_CHANGED [AValue state], Emit DISCONNECTED [AValue state], Destroy])"
  unfolding onAppStateChangedEvent_def includes_ACCEPTED_STATES
  by auto

theorem onAppStateChangedEvent_gating_witness:
  "\<not> (JStr ''UNPAIRED'' \<in> {JStr CONNECTED, JStr OPENING, JStr PAIRING, JStr TIMEOUT}
        \<or> (truthy (takeoverOnConflict options_example) \<and> JStr ''UNPAIRED'' = JStr CONFLICT))
   \<and> onAppStateChangedEvent options_example (JStr ''UNPAIRED'') =
       [Emit STATE_CHANGED [AValue (JStr ''UNPAIRED'')],
        Emit DISCONNECTED [AValue (JStr ''UNPAIRED'')], Destroy]
   \<and> JStr ''TIMEOUT'' \<in> {JStr CONNECTED, JStr OPENING, JStr PAIRING, JStr TIMEOUT}
   \<and> Destroy \<notin> set (onAppStateChangedEvent options_example (JStr ''TIMEOUT''))"
  using onAppStateChangedEvent_gating [of options_example "JStr ''UNPAIRED''"]
        onAppStateChangedEvent_gating [of options_example "JStr ''TIMEOUT''"]
  by (simp add: CONNECTED_def OPENING_def PAIRING_def TIMEOUT_def CONFLICT_def)

text \<open>
  C5. For every newly observed message that is not a group notification (and from whose
  snapshot a \<open>Message\<close> can be built), a \<open>message_create\<close> event is emitted; a \<open>message\<close>
  event follows it if and only if the \<open>fromMe\<close> flag of the snapshot's id is falsy; nothing
  else is emitted, so \<open>message_create\<close> always precedes \<open>message\<close>.
\<close>

theorem onAddMessageEvent_create_then_received:
  assumes "oget msg ''type'' \<noteq> JStr ''gp2''"
      and "Message_patch msg = Inr (message, msg')"
  shows "\<exists>from_me. member (oget msg ''id'') ''fromMe'' = Inr from_me
          \<and> onAddMessageEvent msg =
              Inr (Emit MESSAGE_CREATE [AMessage message]
                   # (if truthy from_me then [] else [Emit MESSAGE_RECEIVED [AMessage message]]))"
proof -
  obtain from_me where f: "member (oget msg ''id'') ''fromMe'' = Inr from_me"
    using Message_patch_Inr [OF assms(2)] by blast
  have "member (oget msg' ''id'') ''fromMe'' = Inr from_me"
    using f Message_patch_id [OF assms(2)] by simp
  then have "onAddMessageEvent msg =
               Inr (Emit MESSAGE_CREATE [AMessage message]
                    # (if truthy from_me then [] else [Emit MESSAGE_RECEIVED [AMessage message]]))"
    using assms by (simp add: onAddMessageEvent_def bind_err_def)
  with f show ?thesis by blast
qed

theorem onAddMessageEvent_create_then_received_witness:
  "oget chat_snapshot ''type'' \<noteq> JStr ''gp2''
   \<and> (case Message_patch chat_snapshot of
         Inr (message, msg') \<Rightarrow>
           onAddMessageEvent chat_snapshot =
             Inr [Emit MESSAGE_CREATE [AMessage message], Emit MESSAGE_RECEIVED [AMessage message]]
       | Inl e \<Rightarrow> False)
   \<and> (case Message_patch poll_snapshot of
         Inr (message, msg') \<Rightarrow>
           onAddMessageEvent poll_snapshot = Inr [Emit MESSAGE_CREATE [AMessage message]]
       | Inl e \<Rightarrow> False)"
proof -
  have t: "oget chat_snapshot ''type'' \<noteq> JStr ''gp2''"
          "oget poll_snapshot ''type'' \<noteq> JStr ''gp2''"
    by (simp_all add: chat_snapshot_def poll_snapshot_def oget_def)
  have "\<exists>m d'. Message_patch chat_snapshot = Inr (m, d')"
    by (rule Message_patch_plain)
       (simp_all add: chat_snapshot_def oget_def CONTACT_CARD_MULTI_def GROUP_INVITE_def)
  then obtain message msg' where p: "Message_patch chat_snapshot = Inr (message, msg')"
    by blast
  have "\<exists>m d'. Message_patch poll_snapshot = Inr (m, d')"
    by (rule Message_patch_plain)
       (simp_all add: poll_snapshot_def oget_def CONTACT_CARD_MULTI_def GROUP_INVITE_def)
  then obtain sent sent' where q: "Message_patch poll_snapshot = Inr (sent, sent')"
    by blast
  have f: "member (oget chat_snapshot ''id'') ''fromMe'' = Inr (JBool False)"
          "member (oget poll_snapshot ''id'') ''fromMe'' = Inr (JBool True)"
    by (simp_all add: chat_snapshot_def poll_snapshot_def oget_def)
  show ?thesis
    using t onAddMessageEvent_create_then_received [OF t(1) p]
          onAddMessageEvent_create_then_received [OF t(2) q] f
    by (auto simp: p q)
qed

text \<open>
  C6. The spec: a batch operation given the option \<open>sleep = [low, high]\<close> waits between
  items for a delay drawn from \<open>[high, high + 100]\<close> when \<open>high - low < 100\<close> and from
  \<open>[low, high]\<close> otherwise, and a numeric \<open>sleep\<close> is a fixed delay. The code, on
  \<open>sleep = [250, 300]\<close> and on \<open>sleep = 5000\<close>: a single call of \<open>WPP.group.approve\<close>
  with the group and the requester ids, the same for both; \<open>sleep\<close> is not read, no
  interval is computed and nothing is delayed.
\<close>

theorem approveGroupMembershipRequests_sleep:
  "approveGroupMembershipRequests page_example ''12036@g.us''
     [(''requesterIds'', JArr [JStr ''628111@c.us'', JStr ''628222@c.us'']),
      (''sleep'', JArr [JNum (Fin 250), JNum (Fin 300)])] =
     ([Call ''WPP.group.approve''
         [JStr ''12036@g.us'', JArr [JStr ''628111@c.us'', JStr ''628222@c.us'']]],
      Inr (JObj [(''id'', JStr ''3A0007'')]))
   \<and> approveGroupMembershipRequests page_example ''12036@g.us''
     [(''requesterIds'', JArr [JStr ''628111@c.us'', JStr ''628222@c.us'']),
      (''sleep'', JNum (Fin 5000))] =
     ([Call ''WPP.group.approve''
         [JStr ''12036@g.us'', JArr [JStr ''628111@c.us'', JStr ''628222@c.us'']]],
      Inr (JObj [(''id'', JStr ''3A0007'')]))"
  by (simp add: approveGroupMembershipRequests_def invoke_def page_example_def js_default_def
        oget_def)

text \<open>
  C7. The spec: \<open>isStatus\<close> is true if and only if the status flag is set or the remote
  segment of the id is the status broadcast channel. The code, on the snapshot of a status
  message as \<open>sendMessage\<close> receives it from the page, where the remote is the wid object
  of \<open>status@broadcast\<close> and \<open>isStatusV3\<close> is absent: the remote is compared with the
  string by \<open>===\<close>, and \<open>isStatus\<close> is \<open>false\<close>, while \<open>to\<close> of the same message is
  normalised to \<open>status@broadcast\<close>. \<open>sendMessage\<close> returns that message.
\<close>

theorem Message_isStatus_wid_remote:
  "member (oget sent_status_snapshot ''id'') ''remote''
     = Inr (JObj [(''server'', JStr ''broadcast''), (''user'', JStr ''status''),
                  (''_serialized'', JStr ''status@broadcast'')])
   \<and> oget sent_status_snapshot ''isStatusV3'' = JUndefined
   \<and> Message_rawData sent_status_snapshot = Inr sent_status_snapshot
   \<and> isStatus (fst (projr (Message_patch sent_status_snapshot))) = JBool False
   \<and> msg_to (fst (projr (Message_patch sent_status_snapshot))) = JStr ''status@broadcast''
   \<and> snd (sendMessage page_status ''status@broadcast'' (Plain (JStr ''hello'')) []
             (Plain JUndefined))
       = Inr (Some (fst (projr (Message_patch sent_status_snapshot))))"
proof -
  have "\<exists>m d'. Message_patch sent_status_snapshot = Inr (m, d')"
    by (rule Message_patch_plain)
       (simp_all add: sent_status_snapshot_def oget_def CONTACT_CARD_MULTI_def GROUP_INVITE_def)
  then obtain m d' where p: "Message_patch sent_status_snapshot = Inr (m, d')"
    by blast
  have same: "d' = sent_status_snapshot"
    using Message_patch_keeps_other_fields [OF p]
    by (simp add: sent_status_snapshot_def oget_def POLL_CREATION_def)
  have vals: "member (oget sent_status_snapshot ''id'') ''remote''
     = Inr (JObj [(''server'', JStr ''broadcast''), (''user'', JStr ''status''),
                  (''_serialized'', JStr ''status@broadcast'')])"
       "oget sent_status_snapshot ''isStatusV3'' = JUndefined"
       "oget sent_status_snapshot ''to''
          = JObj [(''server'', JStr ''broadcast''), (''user'', JStr ''status''),
                  (''_serialized'', JStr ''status@broadcast'')]"
    by (simp_all add: sent_status_snapshot_def oget_def)
  have status: "isStatus m = JBool False"
    using Message_patch_Inr [OF p] vals by (auto simp: js_or_def)
  have wid: "serialized_or_self (JObj [(''server'', JStr ''broadcast''), (''user'', JStr ''status''),
                                       (''_serialized'', JStr ''status@broadcast'')])
             = JStr ''status@broadcast''"
    by (simp add: serialized_or_self_def oget_def)
  have fields: "rawData m = sent_status_snapshot" "msg_to m = JStr ''status@broadcast''"
    using Message_patch_fields [OF p] same
    by (simp_all add: vals wid)
  have new: "new_Message (JObj sent_status_snapshot) = Inr (Some m)"
    by (simp add: new_Message_def bind_err_def p)
  have sent: "snd (sendMessage page_status ''status@broadcast'' (Plain (JStr ''hello'')) []
                     (Plain JUndefined)) = Inr (Some m)"
    using new
    by (simp add: sendMessage_def internalOptions_of_def mentionedJidList_of_def
          dispatch_content_def sendMessage_page_def status_send_def invoke_def page_status_def
          oget_def bind_err_def Let_def lift_def ret_def)
  show ?thesis
    using vals(1,2) status fields sent by (simp add: p Message_rawData_def bind_err_def)
qed

text \<open>
  C8, as the spec states it: building a \<open>Message\<close> from any snapshot and reading \<open>rawData\<close>
  gives back the snapshot's fields unchanged, for every message type. It fails for a poll
  creation: \<open>_patch\<close> deletes the five poll fields from \<open>_data\<close>, and the value of
  \<open>pollSelectableOptionsCount\<close> is kept nowhere.
\<close>

theorem rawData_roundtrip_counterexample:
  "Message_rawData poll_snapshot =
     Inr [(''id'', JObj [(''fromMe'', JBool True), (''remote'', JStr ''628111@c.us''),
                         (''id'', JStr ''3A0002'')]),
          (''type'', JStr ''poll_creation''),
          (''t'', JNum (Fin 1700000000))]
   \<and> Message_rawData poll_snapshot \<noteq> Inr poll_snapshot
   \<and> oget poll_snapshot ''pollSelectableOptionsCount'' = JNum (Fin 1)"
  by (simp add: Message_rawData_def Message_patch_def poll_snapshot_def rawData_def bind_err_def
        oget_def vCards_of_def inviteV4_of_def selectedRowId_of_def Let_def
        CONTACT_CARD_MULTI_def CONTACT_CARD_def GROUP_INVITE_def POLL_CREATION_def
        poll_keys_def delete_prop_def)

text \<open>
  C8, amended: for a snapshot whose type is not \<open>poll_creation\<close>, \<open>rawData\<close> is the
  snapshot, every field unchanged; for a \<open>poll_creation\<close> snapshot, \<open>rawData\<close> is the
  snapshot without \<open>pollName\<close>, \<open>pollOptions\<close>, \<open>pollSelectableOptionsCount\<close>,
  \<open>pollInvalidated\<close> and \<open>isSentCagPollCreation\<close>, every other field unchanged.
\<close>

theorem rawData_roundtrip:
  assumes "Message_patch data = Inr (m, data')"
  shows "(oget data ''type'' \<noteq> JStr POLL_CREATION \<longrightarrow> rawData m = data)
       \<and> (oget data ''type'' = JStr POLL_CREATION \<longrightarrow>
            rawData m = filter (\<lambda>p. fst p \<notin> set poll_keys) data)
       \<and> (\<forall>k. k \<notin> set poll_keys \<longrightarrow> oget (rawData m) k = oget data k)"
proof -
  have raw: "rawData m = (if oget data ''type'' = JStr POLL_CREATION
                          then fold (\<lambda>k d. delete_prop d k) poll_keys data else data)"
    using Message_patch_Inr [OF assms] by (auto simp: rawData_def)
  have fold_filter: "fold (\<lambda>k d. delete_prop d k) poll_keys data
                     = filter (\<lambda>p. fst p \<notin> set poll_keys) data"
    by (simp add: poll_keys_def delete_prop_def conj_commute conj_left_commute cong: conj_cong)
  have a: "oget data ''type'' \<noteq> JStr POLL_CREATION \<longrightarrow> rawData m = data"
    using raw by simp
  have b: "oget data ''type'' = JStr POLL_CREATION \<longrightarrow>
             rawData m = filter (\<lambda>p. fst p \<notin> set poll_keys) data"
    using raw fold_filter by simp
  have c: "\<forall>k. k \<notin> set poll_keys \<longrightarrow> oget (rawData m) k = oget data k"
    using raw by (simp add: oget_delete_poll_keys)
  show ?thesis
    using a b c by blast
qed

theorem rawData_roundtrip_witness:
  "Message_rawData chat_snapshot = Inr chat_snapshot
   \<and> oget poll_snapshot ''type'' = JStr POLL_CREATION
   \<and> Message_rawData poll_snapshot = Inr (filter (\<lambda>p. fst p \<notin> set poll_keys) poll_snapshot)"
proof -
  have "\<exists>m d'. Message_patch chat_snapshot = Inr (m, d')"
    by (rule Message_patch_plain)
       (simp_all add: chat_snapshot_def oget_def CONTACT_CARD_MULTI_def GROUP_INVITE_def)
  then obtain m d' where p: "Message_patch chat_snapshot = Inr (m, d')"
    by blast
  have "\<exists>m d'. Message_patch poll_snapshot = Inr (m, d')"
    by (rule Message_patch_plain)
       (simp_all add: poll_snapshot_def oget_def CONTACT_CARD_MULTI_def GROUP_INVITE_def)
  then obtain m2 d2' where q: "Message_patch poll_snapshot = Inr (m2, d2')"
    by blast
  have t: "oget chat_snapshot ''type'' \<noteq> JStr POLL_CREATION"
          "oget poll_snapshot ''type'' = JStr POLL_CREATION"
    by (simp_all add: chat_snapshot_def poll_snapshot_def oget_def POLL_CREATION_def)
  have "rawData m = chat_snapshot"
    using rawData_roundtrip [OF p] t by blast
  moreover have "rawData m2 = filter (\<lambda>p. fst p \<notin> set poll_keys) poll_snapshot"
    using rawData_roundtrip [OF q] t by blast
  ultimately show ?thesis
    using t by (simp add: Message_rawData_def p q bind_err_def)
qed

text \<open>
  C9. The spec: a message for \<open>status@broadcast\<close> whose content is media with an image
  mimetype goes through the image-status entry point, and content of any other type is a
  thrown failure. The code, on a \<open>MessageMedia\<close> of type \<open>image/png\<close>: the media is moved
  into the options and the content replaced by \<open>''\<close>, so the page calls
  \<open>sendTextStatus\<close> with the empty string. On a \<open>Location\<close>: the same call, and no
  failure.
\<close>

theorem sendMessage_status_media:
  "fst (sendMessage page_example ''status@broadcast'' image_media [] (Plain JUndefined)) =
     [Call ''WPP.status.sendTextStatus''
        [JStr [],
         JObj [(''linkPreview'', JBool True), (''sendAudioAsVoice'', JUndefined),
               (''sendVideoAsGif'', JUndefined), (''sendMediaAsSticker'', JUndefined),
               (''sendMediaAsDocument'', JUndefined), (''caption'', JUndefined),
               (''quotedMessageId'', JUndefined), (''parseVCards'', JBool True),
               (''mentionedJidList'', JArr []), (''extraOptions'', JUndefined),
               (''messageId'', JUndefined),
               (''attachment'', JObj [(''mimetype'', JStr ''image/png''),
                                      (''data'', JStr ''iVBORw0KGgo='')]),
               (''isViewOnce'', JUndefined)]],
      Call ''WPP.whatsapp.MsgStore.get'' [JStr ''3A0007''],
      Call ''serialize'' [JObj [(''id'', JStr ''3A0007'')]]]
   \<and> fst (sendMessage page_example ''status@broadcast'' some_location [] (Plain JUndefined)) =
     [Call ''WPP.status.sendTextStatus''
        [JStr [],
         JObj [(''linkPreview'', JBool True), (''sendAudioAsVoice'', JUndefined),
               (''sendVideoAsGif'', JUndefined), (''sendMediaAsSticker'', JUndefined),
               (''sendMediaAsDocument'', JUndefined), (''caption'', JUndefined),
               (''quotedMessageId'', JUndefined), (''parseVCards'', JBool True),
               (''mentionedJidList'', JArr []), (''extraOptions'', JUndefined),
               (''messageId'', JUndefined),
               (''location'', JObj [(''latitude'', JNum (Fin 6)),
                                    (''longitude'', JNum (Fin 106))])]],
      Call ''WPP.whatsapp.MsgStore.get'' [JStr ''3A0007''],
      Call ''serialize'' [JObj [(''id'', JStr ''3A0007'')]]]
   \<and> (case snd (sendMessage page_example ''status@broadcast'' image_media [] (Plain JUndefined)) of
         Inr sent \<Rightarrow> True | Inl e \<Rightarrow> False)
   \<and> (case snd (sendMessage page_example ''status@broadcast'' some_location [] (Plain JUndefined)) of
         Inr sent \<Rightarrow> True | Inl e \<Rightarrow> False)"
proof -
  have "\<exists>m d'. Message_patch chat_snapshot = Inr (m, d')"
    by (rule Message_patch_plain)
       (simp_all add: chat_snapshot_def oget_def CONTACT_CARD_MULTI_def GROUP_INVITE_def)
  then obtain m d' where "Message_patch chat_snapshot = Inr (m, d')"
    by blast
  then have "new_Message (JObj chat_snapshot) = Inr (Some m)"
    by (simp add: new_Message_def bind_err_def)
  then show ?thesis
    by (simp add: sendMessage_def internalOptions_of_def mentionedJidList_of_def
          dispatch_content_def image_media_def some_location_def sendMessage_page_def
          status_send_def invoke_def page_example_def oget_def bind_err_def
          set_prop_def Let_def lift_def ret_def)
qed

text \<open>
  C10. In \<open>Client.initialize\<close> the QR retry counter is declared without an initial value.
  With \<open>qrMaxRetries > 0\<close>, whatever the sequence of \<open>qrChanged\<close> invocations, the increment
  stores \<open>NaN\<close> in the counter, the comparison \<open>qrRetries > qrMaxRetries\<close> is false every time, each
  invocation emits exactly its one \<open>qr\<close> event, and the branch that emits \<open>disconnected\<close>
  with 'Max qrcode retries reached' and destroys the client is never taken.
\<close>

theorem qrChanged_never_gives_up:
  assumes "num_gt (qrMaxRetries opts) (Fin 0)"
  shows "snd (qrChanged_run opts None qrs) = map (\<lambda>qr. Emit QR_RECEIVED [AValue qr]) qrs
       \<and> Destroy \<notin> set (snd (qrChanged_run opts None qrs))
       \<and> (\<forall>args. Emit DISCONNECTED args \<notin> set (snd (qrChanged_run opts None qrs)))
       \<and> (qrs \<noteq> [] \<longrightarrow> fst (qrChanged_run opts None qrs) = Some NaN)"
proof -
  have run: "snd (qrChanged_run opts None qrs) = map (\<lambda>qr. Emit QR_RECEIVED [AValue qr]) qrs"
    using qrChanged_run_nan [OF assms, of None qrs] by simp
  have counter: "qrs \<noteq> [] \<longrightarrow> fst (qrChanged_run opts None qrs) = Some NaN"
    using qrChanged_run_counter [OF assms, of None qrs] by simp
  show ?thesis
    unfolding run using counter by auto
qed

theorem qrChanged_never_gives_up_witness:
  "num_gt (qrMaxRetries options_example) (Fin 0)
   \<and> qrChanged_run options_example None [JStr ''q1'', JStr ''q2'', JStr ''q3'', JStr ''q4'']
     = (Some NaN,
        [Emit QR_RECEIVED [AValue (JStr ''q1'')], Emit QR_RECEIVED [AValue (JStr ''q2'')],
         Emit QR_RECEIVED [AValue (JStr ''q3'')], Emit QR_RECEIVED [AValue (JStr ''q4'')]])"
proof -
  have h: "num_gt (qrMaxRetries options_example) (Fin 0)"
    by (simp add: options_example_def)
  show ?thesis
    using h qrChanged_never_gives_up [OF h, of "[JStr ''q1'', JStr ''q2'', JStr ''q3'', JStr ''q4'']"]
    by (simp add: prod_eq_iff)
qed

end
